theory Spec2Isabelle
  imports Main "HOL-Library.Word"
begin

section \<open>Data model\<close>

text \<open>
  The operator has two reconcilers. Both talk to the declarative API store through the
  embedded \<open>client.Client\<close>, and the Monitor reconciler also talks to the Upbot service
  through \<open>ApiClient\<close>. The objects are modelled as records; \<open>metav1.ObjectMeta\<close>, which
  Go embeds in every object, is the parent record of \<open>Monitor\<close> and \<open>Ingress\<close>.
  Go's \<open>error\<close> interface is a datatype, and a nil error is \<open>None\<close>.
\<close>

datatype error =
    NotFound
  | Errorf string
  | GenericOpenAPIError string
  | APIError string

type_synonym NamespacedName = "string \<times> string"

record OwnerReference =
  ref_Kind :: string
  ref_Name :: string
  ref_UID :: string
  ref_Controller :: bool
  ref_BlockOwnerDeletion :: bool

record ObjectMeta =
  Name :: string
  Namespace :: string
  UID :: string
  Annotations :: "string \<rightharpoonup> string"
  Labels :: "string \<rightharpoonup> string"
  OwnerReferences :: "OwnerReference list"
  Finalizers :: "string list"
  DeletionTimestamp :: "nat option"

record MonitorSpec =
  Type :: string
  Target :: string
  Interval :: string

record MonitorStatus =
  ExternalID :: string

record Monitor = ObjectMeta +
  Spec :: MonitorSpec
  Status :: MonitorStatus

record IngressRule =
  Host :: string

record IngressTLS =
  Hosts :: "string list"
  SecretName :: string

record IngressSpec =
  Rules :: "IngressRule list"
  TLS :: "IngressTLS list"

record Ingress = ObjectMeta +
  Ingress_Spec :: IngressSpec

text \<open>The request and response bodies of the Upbot SDK. A Go pointer field is an option.\<close>

record StoreANewlyCreatedResourceInStorageRequest =
  create_Name :: "string option"
  create_Type :: string
  create_Target :: "string option"
  create_Interval :: "string option"
  create_RetryCount :: "32 word option"

record UpdateTheSpecifiedResourceInStorageRequest =
  update_Name :: "string option"
  update_Type :: "string option"
  update_Target :: "string option"
  update_Interval :: "string option"
  update_RetryCount :: "32 word option"

record CreateResponse =
  Id :: "string option"

record HttpResponse =
  StatusCode :: nat

section \<open>The collaborators: API store and Upbot service\<close>

text \<open>
  Every call a reconciler issues is appended to \<open>calls\<close>, so that a theorem can say which
  calls one reconcile made and in which order. The store is a pair of maps keyed by
  (namespace, name). What a collaborator answers is not decided by the operator: the record
  \<open>env\<close> fixes, for one reconcile, the failure injected into each store call (\<open>None\<close>: the
  store serves the call) and the values returned by the three SDK \<open>Execute()\<close> calls.
  A store call that is served reads or writes the map: \<open>Get\<close> of a missing key and
  \<open>Update\<close>, \<open>Status().Update\<close> and \<open>Delete\<close> of a missing object answer not-found,
  \<open>Create\<close> of an existing key fails, \<open>Update\<close> stores the object passed and
  \<open>Status().Update\<close> stores its status. Version conflicts and every other store failure
  are injected failures. A failed call is still a call and is logged. The deletion
  timestamp is a number of seconds, \<open>0\<close> being Go's zero time. What the platform does
  with finalizers (a delete of an object that has finalizers only sets the timestamp, and an
  object with the timestamp set is removed once its last finalizer is gone) is not
  modelled: the store holds what the calls put there.
\<close>

datatype call =
    StoreCreate Monitor
  | StoreUpdate Monitor
  | StoreStatusUpdate Monitor
  | StoreDelete Monitor
  | ExtCreate StoreANewlyCreatedResourceInStorageRequest
  | ExtUpdate string UpdateTheSpecifiedResourceInStorageRequest
  | ExtDelete string

record world =
  ingresses :: "NamespacedName \<rightharpoonup> Ingress"
  monitors :: "NamespacedName \<rightharpoonup> Monitor"
  calls :: "call list"

record env =
  Get_Ingress_fault :: "error option"
  Get_Monitor_fault :: "error option"
  Create_fault :: "error option"
  Update_fault :: "error option"
  Status_Update_fault :: "error option"
  Delete_fault :: "error option"
  Create_Execute :: "CreateResponse option \<times> error option"
  Update_Execute :: "error option"
  Delete_Execute :: "HttpResponse option \<times> error option"

definition IsNotFound :: "error option \<Rightarrow> bool" where
  "IsNotFound err = (err = Some NotFound)"

definition IgnoreNotFound :: "error option \<Rightarrow> error option" where
  "IgnoreNotFound err = (if IsNotFound err then None else err)"

definition key_of :: "'a ObjectMeta_scheme \<Rightarrow> NamespacedName" where
  "key_of obj = (Namespace obj, Name obj)"

definition record_call :: "call \<Rightarrow> world \<Rightarrow> world" where
  "record_call c w = w\<lparr>calls := calls w @ [c]\<rparr>"

definition Get_Ingress :: "env \<Rightarrow> NamespacedName \<Rightarrow> world \<Rightarrow> error + Ingress" where
  "Get_Ingress env k w =
     (case Get_Ingress_fault env of
        Some e \<Rightarrow> Inl e
      | None \<Rightarrow> (case ingresses w k of None \<Rightarrow> Inl NotFound | Some i \<Rightarrow> Inr i))"

definition Get_Monitor :: "env \<Rightarrow> NamespacedName \<Rightarrow> world \<Rightarrow> error + Monitor" where
  "Get_Monitor env k w =
     (case Get_Monitor_fault env of
        Some e \<Rightarrow> Inl e
      | None \<Rightarrow> (case monitors w k of None \<Rightarrow> Inl NotFound | Some m \<Rightarrow> Inr m))"

definition Create :: "env \<Rightarrow> Monitor \<Rightarrow> world \<Rightarrow> error option \<times> world" where
  "Create env m w =
     (let w' = record_call (StoreCreate m) w in
      case Create_fault env of
        Some e \<Rightarrow> (Some e, w')
      | None \<Rightarrow>
          (case monitors w (key_of m) of
             Some _ \<Rightarrow> (Some (APIError ''already exists''), w')
           | None \<Rightarrow> (None, w'\<lparr>monitors := (monitors w)(key_of m \<mapsto> m)\<rparr>)))"

definition Update :: "env \<Rightarrow> Monitor \<Rightarrow> world \<Rightarrow> error option \<times> world" where
  "Update env m w =
     (let w' = record_call (StoreUpdate m) w in
      case Update_fault env of
        Some e \<Rightarrow> (Some e, w')
      | None \<Rightarrow>
          (case monitors w (key_of m) of
             None \<Rightarrow> (Some NotFound, w')
           | Some _ \<Rightarrow> (None, w'\<lparr>monitors := (monitors w)(key_of m \<mapsto> m)\<rparr>)))"

definition Status_Update :: "env \<Rightarrow> Monitor \<Rightarrow> world \<Rightarrow> error option \<times> world" where
  "Status_Update env m w =
     (let w' = record_call (StoreStatusUpdate m) w in
      case Status_Update_fault env of
        Some e \<Rightarrow> (Some e, w')
      | None \<Rightarrow>
          (case monitors w (key_of m) of
             None \<Rightarrow> (Some NotFound, w')
           | Some old \<Rightarrow> (None, w'\<lparr>monitors := (monitors w)(key_of m \<mapsto> old\<lparr>Status := Status m\<rparr>)\<rparr>)))"

definition Delete :: "env \<Rightarrow> Monitor \<Rightarrow> world \<Rightarrow> error option \<times> world" where
  "Delete env m w =
     (let w' = record_call (StoreDelete m) w in
      case Delete_fault env of
        Some e \<Rightarrow> (Some e, w')
      | None \<Rightarrow>
          (case monitors w (key_of m) of
             None \<Rightarrow> (Some NotFound, w')
           | Some _ \<Rightarrow> (None, w'\<lparr>monitors := (monitors w)(key_of m := None)\<rparr>)))"

section \<open>Finalizer helpers of controllerutil\<close>

definition monitorFinalizer :: string where
  "monitorFinalizer = ''monitoring.upbot.app/finalizer''"

definition ContainsFinalizer :: "'a ObjectMeta_scheme \<Rightarrow> string \<Rightarrow> bool" where
  "ContainsFinalizer o' finalizer = (finalizer \<in> set (Finalizers o'))"

definition AddFinalizer :: "'a ObjectMeta_scheme \<Rightarrow> string \<Rightarrow> 'a ObjectMeta_scheme" where
  "AddFinalizer o' finalizer =
     (if finalizer \<in> set (Finalizers o') then o'
      else o'\<lparr>Finalizers := Finalizers o' @ [finalizer]\<rparr>)"

definition RemoveFinalizer :: "'a ObjectMeta_scheme \<Rightarrow> string \<Rightarrow> 'a ObjectMeta_scheme" where
  "RemoveFinalizer o' finalizer =
     o'\<lparr>Finalizers := filter (\<lambda>f. f \<noteq> finalizer) (Finalizers o')\<rparr>"

fun IsZero :: "nat option \<Rightarrow> bool" where
  "IsZero None = True"
| "IsZero (Some t) = (t = 0)"

section \<open>Monitor reconciler (monitor\_controller.go)\<close>

text \<open>
  Every function returns the Go error (\<open>None\<close> for nil) and the world after the call. The
  \<open>ctrl.Result\<close> is the zero value on every path of the source, so it is not carried.
  Logging is left out.
\<close>

definition http_StatusNotFound :: nat where
  "http_StatusNotFound = 404"

definition handleUpdate :: "env \<Rightarrow> Monitor \<Rightarrow> world \<Rightarrow> error option \<times> world" where
  "handleUpdate env monitor w =
     (let val = (0 :: 32 word);
          updateRequest = \<lparr>update_Name = Some (Name monitor),
                           update_Type = Some (Type (Spec monitor)),
                           update_Target = Some (Target (Spec monitor)),
                           update_Interval = Some (Interval (Spec monitor)),
                           update_RetryCount = Some val\<rparr>;
          w' = record_call (ExtUpdate (ExternalID (Status monitor)) updateRequest) w
      in (case Update_Execute env of
            Some err \<Rightarrow>
              (case err of
                 GenericOpenAPIError _ \<Rightarrow> (Some err, w')
               | _ \<Rightarrow> (Some err, w'))
          | None \<Rightarrow> (None, w')))"

definition handleCreateOrUpdate :: "env \<Rightarrow> Monitor \<Rightarrow> world \<Rightarrow> error option \<times> world" where
  "handleCreateOrUpdate env monitor w =
     (if ExternalID (Status monitor) \<noteq> '''' then handleUpdate env monitor w
      else
        let val = (0 :: 32 word);
            newMonitor = \<lparr>create_Name = Some (Name monitor),
                          create_Type = Type (Spec monitor),
                          create_Target = Some (Target (Spec monitor)),
                          create_Interval = Some (Interval (Spec monitor)),
                          create_RetryCount = Some val\<rparr>;
            w' = record_call (ExtCreate newMonitor) w
        in (case Create_Execute env of
              (_, Some err) \<Rightarrow> (Some err, w')
            | (Some resp, None) \<Rightarrow>
                (case Id resp of
                   Some id' \<Rightarrow>
                     (let monitor' = monitor\<lparr>Status := (Status monitor)\<lparr>ExternalID := id'\<rparr>\<rparr>
                      in (case Status_Update env monitor' w' of
                            (Some err, w'') \<Rightarrow> (Some err, w'')
                          | (None, w'') \<Rightarrow> (None, w'')))
                 | None \<Rightarrow> (None, w'))
            | (None, None) \<Rightarrow> (None, w')))"

definition handleDeletion :: "env \<Rightarrow> Monitor \<Rightarrow> world \<Rightarrow> error option \<times> world" where
  "handleDeletion env monitor w =
     (if \<not> ContainsFinalizer monitor monitorFinalizer then (None, w)
      else
        let removeFinalizer = (\<lambda>w1.
              case Update env (RemoveFinalizer monitor monitorFinalizer) w1 of
                (Some err, w2) \<Rightarrow> (Some err, w2)
              | (None, w2) \<Rightarrow> (None, w2))
        in (if ExternalID (Status monitor) \<noteq> '''' then
              (let w' = record_call (ExtDelete (ExternalID (Status monitor))) w
               in (case Delete_Execute env of
                     (httpResp, Some err) \<Rightarrow>
                       (case httpResp of
                          Some resp \<Rightarrow>
                            if StatusCode resp = http_StatusNotFound then removeFinalizer w'
                            else (Some err, w')
                        | None \<Rightarrow> (Some err, w'))
                   | (_, None) \<Rightarrow> removeFinalizer w'))
            else removeFinalizer w))"

definition MonitorReconciler_Reconcile ::
  "env \<Rightarrow> NamespacedName \<Rightarrow> world \<Rightarrow> error option \<times> world" where
  "MonitorReconciler_Reconcile env req w =
     (case Get_Monitor env req w of
        Inl err \<Rightarrow> (IgnoreNotFound (Some err), w)
      | Inr monitor \<Rightarrow>
          if \<not> IsZero (DeletionTimestamp monitor) then handleDeletion env monitor w
          else if \<not> ContainsFinalizer monitor monitorFinalizer then
            (case Update env (AddFinalizer monitor monitorFinalizer) w of
               (Some err, w') \<Rightarrow> (Some err, w')
             | (None, w') \<Rightarrow> (None, w'))
          else handleCreateOrUpdate env monitor w)"

section \<open>Ingress watcher (ingress\_watcher\_controller.go)\<close>

text \<open>
  The model follows the file \<open>internal/controller/ingress_watcher_controller.go\<close>.
  \<open>runtime.Scheme\<close> is the list of kinds it has registered, which is all that
  \<open>ctrl.SetControllerReference\<close> asks of it: the call fails when the owner's kind is not
  registered or when the controlled object already has another controller, and otherwise
  records the owner as the controller reference. The Monitor is built in the namespace of
  the Ingress, so the namespace check of \<open>SetControllerReference\<close> cannot fail and is
  left out.
\<close>

record Scheme =
  kinds :: "string list"

record IngressWatcherReconciler =
  Reconciler_Scheme :: Scheme
  Reconciler_Interval :: string

definition SetControllerReference :: "Ingress \<Rightarrow> Monitor \<Rightarrow> Scheme \<Rightarrow> error + Monitor" where
  "SetControllerReference owner controlled scheme =
     (if ''Ingress'' \<notin> set (kinds scheme) then Inl (APIError ''no kind is registered'')
      else
        let ref = \<lparr>ref_Kind = ''Ingress'', ref_Name = Name owner, ref_UID = UID owner,
                   ref_Controller = True, ref_BlockOwnerDeletion = True\<rparr>
        in (case filter ref_Controller (OwnerReferences controlled) of
              existing # _ \<Rightarrow>
                if ref_Kind existing = ref_Kind ref \<and> ref_Name existing = ref_Name ref
                then Inr (controlled\<lparr>OwnerReferences :=
                            map (\<lambda>x. if ref_Kind x = ref_Kind ref \<and> ref_Name x = ref_Name ref
                                      then ref else x) (OwnerReferences controlled)\<rparr>)
                else Inl (APIError ''already owned by another controller'')
            | [] \<Rightarrow> Inr (controlled\<lparr>OwnerReferences := OwnerReferences controlled @ [ref]\<rparr>)))"

definition getTargetFromIngress :: "Ingress \<Rightarrow> error + string" where
  "getTargetFromIngress ingress =
     (case Rules (Ingress_Spec ingress) of
        [] \<Rightarrow> Inl (Errorf ''no rules found in Ingress'')
      | rule # _ \<Rightarrow>
          if Host rule = '''' then Inl (Errorf ''no host found in Ingress rule'')
          else
            let scheme = (if TLS (Ingress_Spec ingress) = [] then ''http'' else ''https'')
            in Inr (scheme @ ''://'' @ Host rule))"

definition createMonitorFromIngress ::
  "IngressWatcherReconciler \<Rightarrow> env \<Rightarrow> Ingress \<Rightarrow> world \<Rightarrow> error option \<times> world" where
  "createMonitorFromIngress r env ingress w =
     (case getTargetFromIngress ingress of
        Inl err \<Rightarrow> (Some err, w)
      | Inr target \<Rightarrow>
          let interval = (if Reconciler_Interval r = '''' then ''30'' else Reconciler_Interval r);
              monitor = \<lparr>Name = Name ingress,
                         Namespace = Namespace ingress,
                         UID = '''',
                         Annotations = Map.empty(''upbot.app/auto-generated'' \<mapsto> ''true''),
                         Labels = Map.empty(''upbot.app/source'' \<mapsto> ''ingress-watcher''),
                         OwnerReferences = [],
                         Finalizers = [],
                         DeletionTimestamp = None,
                         Spec = \<lparr>Type = ''http'', Target = target, Interval = interval\<rparr>,
                         Status = \<lparr>ExternalID = ''''\<rparr>\<rparr>
          in (case SetControllerReference ingress monitor (Reconciler_Scheme r) of
                Inl err \<Rightarrow> (Some err, w)
              | Inr monitor' \<Rightarrow>
                  (case Create env monitor' w of
                     (Some err, w') \<Rightarrow> (Some err, w')
                   | (None, w') \<Rightarrow> (None, w'))))"

definition IngressWatcherReconciler_Reconcile ::
  "IngressWatcherReconciler \<Rightarrow> env \<Rightarrow> NamespacedName \<Rightarrow> world \<Rightarrow> error option \<times> world" where
  "IngressWatcherReconciler_Reconcile r env req w =
     (case Get_Ingress env req w of
        Inl err \<Rightarrow> if IsNotFound (Some err) then (None, w) else (Some err, w)
      | Inr ingress \<Rightarrow>
          (case Get_Monitor env req w of
             Inl err \<Rightarrow>
               if \<not> IsNotFound (Some err) then (Some err, w)
               else createMonitorFromIngress r env ingress w
           | Inr existingMonitor \<Rightarrow> (None, w)))"

section \<open>Ingress watcher, second text (appended to docs/VERSION\_MANAGEMENT.md)\<close>

text \<open>
  The repository holds a second text of the same controller, appended to
  \<open>docs/VERSION_MANAGEMENT.md\<close>. It declares the same reconciler and the same methods
  and extends the controller file: it reads the annotations \<open>upbot.app/path\<close>,
  \<open>upbot.app/interval\<close> and \<open>upbot.app/monitor\<close>, sets two more metadata entries on the
  created Monitor, and has an update path and two cleanup paths. It is the text that the
  specification and \<open>docs/INGRESS_WATCHER_ANNOTATIONS.md\<close> describe, so the statements on
  the annotations, the metadata and the cleanup are made about it. Its functions are
  modelled under the prefix \<open>copy2_\<close>.
  A Go map read \<open>m[k]\<close> of a missing key yields the empty string (\<open>map_index\<close>); the
  two-value form \<open>v, exists := m[k]\<close> is the option \<open>m k\<close>.
\<close>

definition map_index :: "(string \<rightharpoonup> string) \<Rightarrow> string \<Rightarrow> string" where
  "map_index m k = (case m k of None \<Rightarrow> '''' | Some v \<Rightarrow> v)"

definition copy2_getTargetFromIngress :: "Ingress \<Rightarrow> error + string" where
  "copy2_getTargetFromIngress ingress =
     (case Rules (Ingress_Spec ingress) of
        [] \<Rightarrow> Inl (Errorf ''no rules found in Ingress'')
      | rule # _ \<Rightarrow>
          if Host rule = '''' then Inl (Errorf ''no host found in Ingress rule'')
          else
            let scheme = (if TLS (Ingress_Spec ingress) = [] then ''http'' else ''https'');
                target = scheme @ ''://'' @ Host rule
            in (case Annotations ingress ''upbot.app/path'' of
                  Some customPath \<Rightarrow>
                    if customPath \<noteq> '''' then
                      let customPath1 = (if hd customPath \<noteq> CHR ''/'' then ''/'' @ customPath
                                         else customPath);
                          customPath2 = (if length customPath1 > 1 \<and> last customPath1 = CHR ''/''
                                         then butlast customPath1 else customPath1)
                      in Inr (target @ customPath2)
                    else Inr target
                | None \<Rightarrow> Inr target))"

definition copy2_interval :: "IngressWatcherReconciler \<Rightarrow> Ingress \<Rightarrow> string" where
  "copy2_interval r ingress =
     (let interval = Reconciler_Interval r in
      case Annotations ingress ''upbot.app/interval'' of
        Some customInterval \<Rightarrow>
          if customInterval \<noteq> '''' then customInterval
          else if interval = '''' then ''30'' else interval
      | None \<Rightarrow> if interval = '''' then ''30'' else interval)"

definition copy2_createMonitorFromIngress ::
  "IngressWatcherReconciler \<Rightarrow> env \<Rightarrow> Ingress \<Rightarrow> world \<Rightarrow> error option \<times> world" where
  "copy2_createMonitorFromIngress r env ingress w =
     (case copy2_getTargetFromIngress ingress of
        Inl err \<Rightarrow> (Some err, w)
      | Inr target \<Rightarrow>
          let interval = copy2_interval r ingress;
              monitor = \<lparr>Name = Name ingress,
                         Namespace = Namespace ingress,
                         UID = '''',
                         Annotations = Map.empty(
                           ''upbot.app/auto-generated'' \<mapsto> ''true'',
                           ''upbot.app/source-ingress'' \<mapsto> Namespace ingress @ ''/'' @ Name ingress),
                         Labels = Map.empty(
                           ''upbot.app/source'' \<mapsto> ''ingress-watcher'',
                           ''upbot.app/target-type'' \<mapsto> ''http''),
                         OwnerReferences = [],
                         Finalizers = [],
                         DeletionTimestamp = None,
                         Spec = \<lparr>Type = ''http'', Target = target, Interval = interval\<rparr>,
                         Status = \<lparr>ExternalID = ''''\<rparr>\<rparr>
          in (case SetControllerReference ingress monitor (Reconciler_Scheme r) of
                Inl err \<Rightarrow> (Some err, w)
              | Inr monitor' \<Rightarrow>
                  (case Create env monitor' w of
                     (Some err, w') \<Rightarrow> (Some err, w')
                   | (None, w') \<Rightarrow> (None, w'))))"

definition copy2_updateMonitorIfNeeded ::
  "IngressWatcherReconciler \<Rightarrow> env \<Rightarrow> Monitor \<Rightarrow> Ingress \<Rightarrow> world \<Rightarrow> error option \<times> world" where
  "copy2_updateMonitorIfNeeded r env monitor ingress w =
     (if map_index (Labels monitor) ''upbot.app/source'' \<noteq> ''ingress-watcher'' then (None, w)
      else
        case copy2_getTargetFromIngress ingress of
          Inl err \<Rightarrow> (Some err, w)
        | Inr expectedTarget \<Rightarrow>
            let expectedInterval = copy2_interval r ingress;
                needsUpdate0 = False;
                (monitor1, needsUpdate1) =
                  (if Target (Spec monitor) \<noteq> expectedTarget
                   then (monitor\<lparr>Spec := (Spec monitor)\<lparr>Target := expectedTarget\<rparr>\<rparr>, True)
                   else (monitor, needsUpdate0));
                (monitor2, needsUpdate2) =
                  (if Interval (Spec monitor1) \<noteq> expectedInterval
                   then (monitor1\<lparr>Spec := (Spec monitor1)\<lparr>Interval := expectedInterval\<rparr>\<rparr>, True)
                   else (monitor1, needsUpdate1));
                (monitor3, needsUpdate3) =
                  (if Type (Spec monitor2) \<noteq> ''http''
                   then (monitor2\<lparr>Spec := (Spec monitor2)\<lparr>Type := ''http''\<rparr>\<rparr>, True)
                   else (monitor2, needsUpdate2))
            in (if needsUpdate3 then
                  (case Update env monitor3 w of
                     (Some err, w') \<Rightarrow> (Some err, w')
                   | (None, w') \<Rightarrow> (None, w'))
                else (None, w)))"

definition copy2_handleIngressDeletion ::
  "env \<Rightarrow> NamespacedName \<Rightarrow> world \<Rightarrow> error option \<times> world" where
  "copy2_handleIngressDeletion env namespacedName w =
     (case Get_Monitor env namespacedName w of
        Inl err \<Rightarrow> if IsNotFound (Some err) then (None, w) else (Some err, w)
      | Inr monitor \<Rightarrow>
          if map_index (Labels monitor) ''upbot.app/source'' \<noteq> ''ingress-watcher'' then (None, w)
          else
            let expectedSourceAnnotation = fst namespacedName @ ''/'' @ snd namespacedName
            in (if map_index (Annotations monitor) ''upbot.app/source-ingress''
                     \<noteq> expectedSourceAnnotation
                then (None, w)
                else (case Delete env monitor w of
                        (Some err, w') \<Rightarrow> (Some err, w')
                      | (None, w') \<Rightarrow> (None, w'))))"

definition copy2_handleMonitorCleanupForDisabledIngress ::
  "env \<Rightarrow> NamespacedName \<Rightarrow> world \<Rightarrow> error option \<times> world" where
  "copy2_handleMonitorCleanupForDisabledIngress env namespacedName w =
     (case Get_Monitor env namespacedName w of
        Inl err \<Rightarrow> if IsNotFound (Some err) then (None, w) else (Some err, w)
      | Inr monitor \<Rightarrow>
          if map_index (Labels monitor) ''upbot.app/source'' \<noteq> ''ingress-watcher'' then (None, w)
          else (case Delete env monitor w of
                  (Some err, w') \<Rightarrow> (Some err, w')
                | (None, w') \<Rightarrow> (None, w')))"

definition copy2_Reconcile ::
  "IngressWatcherReconciler \<Rightarrow> env \<Rightarrow> NamespacedName \<Rightarrow> world \<Rightarrow> error option \<times> world" where
  "copy2_Reconcile r env req w =
     (case Get_Ingress env req w of
        Inl err \<Rightarrow>
          if IsNotFound (Some err) then copy2_handleIngressDeletion env req w else (Some err, w)
      | Inr ingress \<Rightarrow>
          if (case Annotations ingress ''upbot.app/monitor'' of
                Some disabled \<Rightarrow> disabled = ''false'' \<or> disabled = ''disabled''
              | None \<Rightarrow> False)
          then copy2_handleMonitorCleanupForDisabledIngress env req w
          else
            (case Get_Monitor env req w of
               Inl err \<Rightarrow>
                 if \<not> IsNotFound (Some err) then (Some err, w)
                 else copy2_createMonitorFromIngress r env ingress w
             | Inr existingMonitor \<Rightarrow> copy2_updateMonitorIfNeeded r env existingMonitor ingress w))"

text \<open>
  The normalisation of a path directive in the words of the specification: a leading \<open>/\<close>
  is added if missing, and one trailing \<open>/\<close> is stripped unless the path is exactly \<open>/\<close>.
\<close>

definition normalized_path :: "string \<Rightarrow> string" where
  "normalized_path d =
     (let p = (if take 1 d = ''/'' then d else ''/'' @ d)
      in if p \<noteq> ''/'' \<and> last p = CHR ''/'' then butlast p else p)"

section \<open>Calls issued by one reconcile\<close>

text \<open>
  \<open>issued w w'\<close> is what a reconcile that started in \<open>w\<close> and ended in \<open>w'\<close> appended to the
  call log. \<open>createRequestOf\<close> and \<open>updateRequestOf\<close> name the request bodies that
  \<open>handleCreateOrUpdate\<close> and \<open>handleUpdate\<close> build from a Monitor.
\<close>

definition issued :: "world \<Rightarrow> world \<Rightarrow> call list" where
  "issued w w' = drop (length (calls w)) (calls w')"

fun is_ExtCreate :: "call \<Rightarrow> bool" where
  "is_ExtCreate (ExtCreate _) = True"
| "is_ExtCreate _ = False"

definition createRequestOf :: "Monitor \<Rightarrow> StoreANewlyCreatedResourceInStorageRequest" where
  "createRequestOf monitor =
     \<lparr>create_Name = Some (Name monitor),
      create_Type = Type (Spec monitor),
      create_Target = Some (Target (Spec monitor)),
      create_Interval = Some (Interval (Spec monitor)),
      create_RetryCount = Some 0\<rparr>"

definition updateRequestOf :: "Monitor \<Rightarrow> UpdateTheSpecifiedResourceInStorageRequest" where
  "updateRequestOf monitor =
     \<lparr>update_Name = Some (Name monitor),
      update_Type = Some (Type (Spec monitor)),
      update_Target = Some (Target (Spec monitor)),
      update_Interval = Some (Interval (Spec monitor)),
      update_RetryCount = Some 0\<rparr>"

section \<open>Example inputs\<close>

text \<open>
  Concrete objects on which the theorems below are instantiated: a Monitor as the watcher
  leaves it in the store, the same Monitor once the finalizer is attached, a store that
  holds one Monitor under its own key, and collaborators that serve every call.
\<close>

definition example_monitor :: Monitor where
  "example_monitor =
     \<lparr>Name = ''my-app'', Namespace = ''default'', UID = ''uid-1'',
      Annotations = Map.empty, Labels = Map.empty, OwnerReferences = [],
      Finalizers = [], DeletionTimestamp = None,
      Spec = \<lparr>Type = ''http'', Target = ''http://myapp.example.com'', Interval = ''30''\<rparr>,
      Status = \<lparr>ExternalID = ''''\<rparr>\<rparr>"

definition armed_monitor :: Monitor where
  "armed_monitor = example_monitor\<lparr>Finalizers := [monitorFinalizer]\<rparr>"

definition world_with :: "Monitor \<Rightarrow> world" where
  "world_with m = \<lparr>ingresses = Map.empty, monitors = Map.empty(key_of m \<mapsto> m), calls = []\<rparr>"

definition env_ok :: env where
  "env_ok =
     \<lparr>Get_Ingress_fault = None, Get_Monitor_fault = None, Create_fault = None,
      Update_fault = None, Status_Update_fault = None, Delete_fault = None,
      Create_Execute = (Some \<lparr>Id = Some ''42''\<rparr>, None),
      Update_Execute = None,
      Delete_Execute = (Some \<lparr>StatusCode = 200\<rparr>, None)\<rparr>"

definition synced_monitor :: Monitor where
  "synced_monitor = armed_monitor\<lparr>Status := \<lparr>ExternalID = ''42''\<rparr>\<rparr>"

definition deleting_monitor :: Monitor where
  "deleting_monitor = synced_monitor\<lparr>DeletionTimestamp := Some 1762128000\<rparr>"

definition unmarked_deleting_monitor :: Monitor where
  "unmarked_deleting_monitor = deleting_monitor\<lparr>Finalizers := []\<rparr>"

definition env_create_fails :: env where
  "env_create_fails = env_ok\<lparr>Create_Execute := (None, Some (GenericOpenAPIError ''500 Internal Server Error''))\<rparr>"

definition env_create_no_id :: env where
  "env_create_no_id = env_ok\<lparr>Create_Execute := (Some \<lparr>Id = None\<rparr>, None)\<rparr>"

definition env_update_fails :: env where
  "env_update_fails = env_ok\<lparr>Update_Execute := Some (GenericOpenAPIError ''404 Not Found'')\<rparr>"

definition env_delete_404 :: env where
  "env_delete_404 =
     env_ok\<lparr>Delete_Execute := (Some \<lparr>StatusCode = 404\<rparr>, Some (GenericOpenAPIError ''404 Not Found''))\<rparr>"

definition env_delete_500 :: env where
  "env_delete_500 =
     env_ok\<lparr>Delete_Execute :=
              (Some \<lparr>StatusCode = 500\<rparr>, Some (GenericOpenAPIError ''500 Internal Server Error''))\<rparr>"

text \<open>
  For the watcher: a reconciler whose process-wide default interval is \<open>30\<close>, the Ingress
  \<open>default/my-app\<close> with given annotations and rules and no TLS entry, a Monitor that
  carries the watcher's ownership label, and a store built from an optional Ingress and an
  optional Monitor under the key \<open>default/my-app\<close>.
\<close>

definition example_key :: NamespacedName where
  "example_key = (''default'', ''my-app'')"

definition example_reconciler :: IngressWatcherReconciler where
  "example_reconciler =
     \<lparr>Reconciler_Scheme = \<lparr>kinds = [''Ingress'', ''Monitor'']\<rparr>, Reconciler_Interval = ''30''\<rparr>"

definition ingress_with :: "(string \<rightharpoonup> string) \<Rightarrow> IngressRule list \<Rightarrow> Ingress" where
  "ingress_with annotations rules =
     \<lparr>Name = ''my-app'', Namespace = ''default'', UID = ''uid-0'',
      Annotations = annotations, Labels = Map.empty, OwnerReferences = [],
      Finalizers = [], DeletionTimestamp = None,
      Ingress_Spec = \<lparr>Rules = rules, TLS = []\<rparr>\<rparr>"

definition managed_monitor :: Monitor where
  "managed_monitor =
     example_monitor\<lparr>Labels := Map.empty(''upbot.app/source'' \<mapsto> ''ingress-watcher'')\<rparr>"

definition route_world :: "Ingress option \<Rightarrow> Monitor option \<Rightarrow> world" where
  "route_world i m =
     \<lparr>ingresses = (\<lambda>k. if k = example_key then i else None),
      monitors = (\<lambda>k. if k = example_key then m else None),
      calls = []\<rparr>"

text \<open>
  Further inputs for the second text of the watcher: a Monitor that also carries the
  source-ingress annotation of its route, routes with the monitor, interval and path
  annotations and with a TLS entry, a reconciler without a default interval, and a store
  that answers not-found to a delete.
\<close>

definition owned_monitor :: Monitor where
  "owned_monitor =
     managed_monitor\<lparr>Annotations := Map.empty(''upbot.app/source-ingress'' \<mapsto> ''default/my-app'')\<rparr>"

definition disabled_ingress :: Ingress where
  "disabled_ingress =
     ingress_with (Map.empty(''upbot.app/monitor'' \<mapsto> ''false'')) [\<lparr>Host = ''myapp.example.com''\<rparr>]"

definition interval_ingress :: Ingress where
  "interval_ingress =
     ingress_with (Map.empty(''upbot.app/interval'' \<mapsto> ''10'')) [\<lparr>Host = ''myapp.example.com''\<rparr>]"

definition plain_ingress :: Ingress where
  "plain_ingress = ingress_with Map.empty [\<lparr>Host = ''myapp.example.com''\<rparr>]"

definition tls_ingress :: Ingress where
  "tls_ingress =
     (ingress_with (Map.empty(''upbot.app/path'' \<mapsto> ''/api/v1/'', ''upbot.app/interval'' \<mapsto> ''10''))
                   [\<lparr>Host = ''api.example.com''\<rparr>])
       \<lparr>Ingress_Spec := \<lparr>Rules = [\<lparr>Host = ''api.example.com''\<rparr>],
                         TLS = [\<lparr>Hosts = [''api.example.com''], SecretName = ''api-tls''\<rparr>]\<rparr>\<rparr>"

definition reconciler_without_default :: IngressWatcherReconciler where
  "reconciler_without_default = example_reconciler\<lparr>Reconciler_Interval := ''''\<rparr>"

definition env_delete_not_found :: env where
  "env_delete_not_found = env_ok\<lparr>Delete_fault := Some NotFound\<rparr>"

section \<open>Basic facts about the store operations and the reconciler's branches\<close>

lemmas model_defs =
  MonitorReconciler_Reconcile_def handleCreateOrUpdate_def handleUpdate_def handleDeletion_def
  Get_Monitor_def Update_def Status_Update_def record_call_def issued_def
  ContainsFinalizer_def AddFinalizer_def RemoveFinalizer_def IgnoreNotFound_def IsNotFound_def
  key_of_def createRequestOf_def updateRequestOf_def http_StatusNotFound_def Let_def

lemmas example_defs =
  example_monitor_def armed_monitor_def synced_monitor_def deleting_monitor_def
  unmarked_deleting_monitor_def world_with_def env_ok_def env_create_fails_def
  env_create_no_id_def env_update_fails_def env_delete_404_def env_delete_500_def
  monitorFinalizer_def

lemma calls_record_call [simp]: "calls (record_call c w) = calls w @ [c]"
  by (simp add: record_call_def)

lemma monitors_record_call [simp]: "monitors (record_call c w) = monitors w"
  by (simp add: record_call_def)

lemma issued_self [simp]: "issued w w = []"
  by (simp add: issued_def)

lemma Update_ok_result:
  "Update_fault env = None \<Longrightarrow> monitors w (key_of m) = Some old \<Longrightarrow>
   Update env m w = (None, (record_call (StoreUpdate m) w)\<lparr>monitors := (monitors w)(key_of m \<mapsto> m)\<rparr>)"
  by (simp add: Update_def Let_def)

lemma Update_calls: "calls (snd (Update env m w)) = calls w @ [StoreUpdate m]"
  by (simp add: Update_def Let_def split: option.splits)

lemma Update_failed_monitors:
  "fst (Update env m w) = Some e \<Longrightarrow> monitors (snd (Update env m w)) = monitors w"
  by (simp add: Update_def Let_def split: option.splits)

lemma Status_Update_calls: "calls (snd (Status_Update env m w)) = calls w @ [StoreStatusUpdate m]"
  by (simp add: Status_Update_def Let_def split: option.splits)

lemma Status_Update_ok_result:
  "Status_Update_fault env = None \<Longrightarrow> monitors w (key_of m) = Some old \<Longrightarrow>
   Status_Update env m w =
     (None, (record_call (StoreStatusUpdate m) w)
               \<lparr>monitors := (monitors w)(key_of m \<mapsto> old\<lparr>Status := Status m\<rparr>)\<rparr>)"
  by (simp add: Status_Update_def Let_def)

lemma handleUpdate_result:
  "handleUpdate env m w =
     (Update_Execute env, record_call (ExtUpdate (ExternalID (Status m)) (updateRequestOf m)) w)"
  by (simp add: handleUpdate_def updateRequestOf_def Let_def split: option.splits error.splits)

lemma Reconcile_get_failed:
  "Get_Monitor env req w = Inl e \<Longrightarrow>
   MonitorReconciler_Reconcile env req w = (IgnoreNotFound (Some e), w)"
  by (simp add: MonitorReconciler_Reconcile_def)

lemma Reconcile_deleting:
  "Get_Monitor env req w = Inr m \<Longrightarrow> \<not> IsZero (DeletionTimestamp m) \<Longrightarrow>
   MonitorReconciler_Reconcile env req w = handleDeletion env m w"
  by (simp add: MonitorReconciler_Reconcile_def)

lemma Reconcile_fresh:
  "Get_Monitor env req w = Inr m \<Longrightarrow> IsZero (DeletionTimestamp m) \<Longrightarrow>
   \<not> ContainsFinalizer m monitorFinalizer \<Longrightarrow>
   MonitorReconciler_Reconcile env req w = Update env (AddFinalizer m monitorFinalizer) w"
  by (simp add: MonitorReconciler_Reconcile_def split: prod.splits option.splits)

lemma Reconcile_armed:
  "Get_Monitor env req w = Inr m \<Longrightarrow> IsZero (DeletionTimestamp m) \<Longrightarrow>
   ContainsFinalizer m monitorFinalizer \<Longrightarrow>
   MonitorReconciler_Reconcile env req w = handleCreateOrUpdate env m w"
  by (simp add: MonitorReconciler_Reconcile_def)

lemma Get_Monitor_stored:
  "Get_Monitor_fault env = None \<Longrightarrow> monitors w req = Some m \<Longrightarrow> Get_Monitor env req w = Inr m"
  by (simp add: Get_Monitor_def)

lemma Get_Monitor_InrD:
  "Get_Monitor env req w = Inr m \<Longrightarrow> monitors w req = Some m"
  by (simp add: Get_Monitor_def split: option.splits)

lemma handleDeletion_no_create:
  "\<not> (\<exists>c \<in> set (issued w (snd (handleDeletion env m w))). is_ExtCreate c)"
  by (auto simp: handleDeletion_def issued_def Let_def Update_calls Update_def
           split: prod.splits option.splits if_splits)

lemma handleCreateOrUpdate_creates:
  "ExternalID (Status m) = '''' \<Longrightarrow>
   \<exists>rest. calls (snd (handleCreateOrUpdate env m w)) = calls w @ ExtCreate (createRequestOf m) # rest"
  by (auto simp: handleCreateOrUpdate_def createRequestOf_def Let_def Status_Update_def
           split: prod.splits option.splits)

lemma AddFinalizer_fresh:
  "\<not> ContainsFinalizer m f \<Longrightarrow> AddFinalizer m f = m\<lparr>Finalizers := Finalizers m @ [f]\<rparr>"
  by (simp add: AddFinalizer_def ContainsFinalizer_def)

lemma Reconcile_create_needs_marker:
  assumes "\<exists>c \<in> set (issued w (snd (MonitorReconciler_Reconcile env req w))). is_ExtCreate c"
  shows "\<exists>m. monitors w req = Some m \<and> ContainsFinalizer m monitorFinalizer"
proof (cases "Get_Monitor env req w")
  case (Inl e)
  with assms show ?thesis by (simp add: Reconcile_get_failed)
next
  case (Inr m)
  note got = this
  show ?thesis
  proof (cases "IsZero (DeletionTimestamp m)")
    case False
    with got assms handleDeletion_no_create [of w env m] show ?thesis
      by (simp add: Reconcile_deleting)
  next
    case True
    note live = this
    show ?thesis
    proof (cases "ContainsFinalizer m monitorFinalizer")
      case True
      with got show ?thesis by (auto dest: Get_Monitor_InrD)
    next
      case False
      with got live assms show ?thesis
        by (simp add: Reconcile_fresh issued_def Update_calls)
    qed
  qed
qed

lemma handleCreateOrUpdate_create_failed:
  "ExternalID (Status m) = '''' \<Longrightarrow> snd (Create_Execute env) = Some e \<Longrightarrow>
   handleCreateOrUpdate env m w = (Some e, record_call (ExtCreate (createRequestOf m)) w)"
  by (cases "Create_Execute env")
     (simp add: handleCreateOrUpdate_def createRequestOf_def Let_def split: option.splits)

lemma handleCreateOrUpdate_create_no_id:
  "ExternalID (Status m) = '''' \<Longrightarrow>
   Create_Execute env = (None, None) \<or> (\<exists>resp. Create_Execute env = (Some resp, None) \<and> Id resp = None) \<Longrightarrow>
   handleCreateOrUpdate env m w = (None, record_call (ExtCreate (createRequestOf m)) w)"
  by (auto simp: handleCreateOrUpdate_def createRequestOf_def Let_def)

lemma handleCreateOrUpdate_create_ok:
  "ExternalID (Status m) = '''' \<Longrightarrow> Create_Execute env = (Some resp, None) \<Longrightarrow> Id resp = Some i \<Longrightarrow>
   handleCreateOrUpdate env m w =
     Status_Update env (m\<lparr>Status := (Status m)\<lparr>ExternalID := i\<rparr>\<rparr>)
       (record_call (ExtCreate (createRequestOf m)) w)"
  by (simp add: handleCreateOrUpdate_def createRequestOf_def Let_def split: prod.splits option.splits)

lemma handleCreateOrUpdate_synced:
  "ExternalID (Status m) \<noteq> '''' \<Longrightarrow>
   handleCreateOrUpdate env m w =
     (Update_Execute env, record_call (ExtUpdate (ExternalID (Status m)) (updateRequestOf m)) w)"
  by (simp add: handleCreateOrUpdate_def handleUpdate_result)

lemma issued_record_call [simp]: "issued w (record_call c w) = [c]"
  by (simp add: issued_def)

lemma RemoveFinalizer_gone: "\<not> ContainsFinalizer (RemoveFinalizer m f) f"
  by (simp add: RemoveFinalizer_def ContainsFinalizer_def)

lemma key_of_RemoveFinalizer: "key_of (RemoveFinalizer m f) = key_of m"
  by (simp add: key_of_def RemoveFinalizer_def)

lemma handleDeletion_unmarked:
  "\<not> ContainsFinalizer m monitorFinalizer \<Longrightarrow> handleDeletion env m w = (None, w)"
  by (simp add: handleDeletion_def)

lemma handleDeletion_no_externalID:
  "ContainsFinalizer m monitorFinalizer \<Longrightarrow> ExternalID (Status m) = '''' \<Longrightarrow>
   handleDeletion env m w = Update env (RemoveFinalizer m monitorFinalizer) w"
  by (simp add: handleDeletion_def Let_def split: prod.splits option.splits)

lemma handleDeletion_delete_ok:
  "ContainsFinalizer m monitorFinalizer \<Longrightarrow> ExternalID (Status m) \<noteq> '''' \<Longrightarrow>
   snd (Delete_Execute env) = None \<or>
     (\<exists>resp e. Delete_Execute env = (Some resp, Some e) \<and> StatusCode resp = 404) \<Longrightarrow>
   handleDeletion env m w =
     Update env (RemoveFinalizer m monitorFinalizer)
       (record_call (ExtDelete (ExternalID (Status m))) w)"
  by (cases "Delete_Execute env")
     (auto simp: handleDeletion_def Let_def http_StatusNotFound_def split: prod.splits option.splits)

lemma handleDeletion_delete_failed:
  "ContainsFinalizer m monitorFinalizer \<Longrightarrow> ExternalID (Status m) \<noteq> '''' \<Longrightarrow>
   Delete_Execute env = (hr, Some e) \<Longrightarrow> \<not> (\<exists>resp. hr = Some resp \<and> StatusCode resp = 404) \<Longrightarrow>
   handleDeletion env m w = (Some e, record_call (ExtDelete (ExternalID (Status m))) w)"
  by (auto simp: handleDeletion_def Let_def http_StatusNotFound_def split: prod.splits option.splits)

section \<open>Ingress watcher, controller file: what the reconcile does\<close>

text \<open>
  General facts about \<open>ingress_watcher_controller.go\<close>, the shorter of the two texts: the
  target does not depend on the annotations of the Ingress; \<open>createMonitorFromIngress\<close>
  either issues nothing or issues exactly one store create, of a Monitor whose metadata and
  interval are fixed by the Ingress name, namespace and UID and by the reconciler's
  interval; and a reconcile never removes a Monitor from the store.
\<close>

lemmas watcher_defs =
  IngressWatcherReconciler_Reconcile_def createMonitorFromIngress_def getTargetFromIngress_def
  SetControllerReference_def Get_Ingress_def Get_Monitor_def Create_def record_call_def
  issued_def IsNotFound_def key_of_def Let_def

lemmas watcher_example_defs =
  example_key_def example_reconciler_def ingress_with_def managed_monitor_def
  example_monitor_def route_world_def env_ok_def

lemma getTargetFromIngress_ignores_annotations:
  "getTargetFromIngress (ingress\<lparr>Annotations := a\<rparr>) = getTargetFromIngress ingress"
  by (simp add: getTargetFromIngress_def)

lemma createMonitorFromIngress_calls:
  "issued w (snd (createMonitorFromIngress r env ingress w)) = [] \<or>
   (\<exists>target. getTargetFromIngress ingress = Inr target \<and>
      issued w (snd (createMonitorFromIngress r env ingress w)) =
      [StoreCreate
        \<lparr>Name = Name ingress, Namespace = Namespace ingress, UID = '''',
         Annotations = Map.empty(''upbot.app/auto-generated'' \<mapsto> ''true''),
         Labels = Map.empty(''upbot.app/source'' \<mapsto> ''ingress-watcher''),
         OwnerReferences = [\<lparr>ref_Kind = ''Ingress'', ref_Name = Name ingress,
                              ref_UID = UID ingress, ref_Controller = True,
                              ref_BlockOwnerDeletion = True\<rparr>],
         Finalizers = [], DeletionTimestamp = None,
         Spec = \<lparr>Type = ''http'', Target = target,
                  Interval = (if Reconciler_Interval r = '''' then ''30''
                              else Reconciler_Interval r)\<rparr>,
         Status = \<lparr>ExternalID = ''''\<rparr>\<rparr>])"
  by (auto simp: createMonitorFromIngress_def SetControllerReference_def Create_def issued_def
                 record_call_def Let_def
           split: sum.splits option.splits prod.splits)

lemma watcher_never_removes:
  "monitors w k = Some m \<Longrightarrow>
   monitors (snd (IngressWatcherReconciler_Reconcile r env req w)) k = Some m"
  by (auto simp: IngressWatcherReconciler_Reconcile_def createMonitorFromIngress_def
                 SetControllerReference_def Create_def record_call_def Let_def
           split: sum.splits option.splits prod.splits)

section \<open>Ingress watcher, second text: basic facts\<close>

text \<open>
  Which calls each function of the second text can issue, what the store delete answers,
  when the two cleanup paths run and what they do, and evaluations on the example inputs.
  The validation of the route is the same as in the controller file.
\<close>

lemmas copy2_defs =
  copy2_Reconcile_def copy2_createMonitorFromIngress_def copy2_getTargetFromIngress_def
  copy2_interval_def copy2_updateMonitorIfNeeded_def copy2_handleIngressDeletion_def
  copy2_handleMonitorCleanupForDisabledIngress_def map_index_def Delete_def Update_def
  SetControllerReference_def Get_Ingress_def Get_Monitor_def Create_def record_call_def
  issued_def IsNotFound_def key_of_def Let_def

lemma rewrap [simp]:
  "(case x of (Some err, w') \<Rightarrow> (Some err, w') | (None, w') \<Rightarrow> (None, w')) = x"
  by (cases x) (auto split: option.splits)

lemma map_index_eq_iff: "v \<noteq> '''' \<Longrightarrow> map_index m k = v \<longleftrightarrow> m k = Some v"
  by (auto simp: map_index_def split: option.splits)

lemma Delete_fault_result:
  "Delete_fault env = Some e \<Longrightarrow> Delete env m w = (Some e, record_call (StoreDelete m) w)"
  by (simp add: Delete_def Let_def)

lemma Delete_ok_result:
  "Delete_fault env = None \<Longrightarrow> monitors w (key_of m) = Some old \<Longrightarrow>
   Delete env m w = (None, (record_call (StoreDelete m) w)\<lparr>monitors := (monitors w)(key_of m := None)\<rparr>)"
  by (simp add: Delete_def Let_def)

lemma Delete_calls: "calls (snd (Delete env m w)) = calls w @ [StoreDelete m]"
  by (simp add: Delete_def Let_def split: option.splits)

lemma copy2_cleanup_disabled:
  "Get_Monitor env k w = Inr m \<Longrightarrow> Labels m ''upbot.app/source'' = Some ''ingress-watcher'' \<Longrightarrow>
   copy2_handleMonitorCleanupForDisabledIngress env k w = Delete env m w"
  by (simp add: copy2_handleMonitorCleanupForDisabledIngress_def map_index_def
           split: prod.splits option.splits)

lemma copy2_cleanup_disabled_skip:
  "Get_Monitor env k w = Inl NotFound
     \<or> (\<exists>m. Get_Monitor env k w = Inr m \<and> Labels m ''upbot.app/source'' \<noteq> Some ''ingress-watcher'') \<Longrightarrow>
   copy2_handleMonitorCleanupForDisabledIngress env k w = (None, w)"
  by (auto simp: copy2_handleMonitorCleanupForDisabledIngress_def IsNotFound_def
                 map_index_eq_iff)

lemma copy2_cleanup_absent:
  "Get_Monitor env k w = Inr m \<Longrightarrow> Labels m ''upbot.app/source'' = Some ''ingress-watcher'' \<Longrightarrow>
   Annotations m ''upbot.app/source-ingress'' = Some (fst k @ ''/'' @ snd k) \<Longrightarrow>
   copy2_handleIngressDeletion env k w = Delete env m w"
  by (simp add: copy2_handleIngressDeletion_def map_index_def Let_def
           split: prod.splits option.splits)

lemma copy2_cleanup_absent_skip:
  "Get_Monitor env k w = Inl NotFound
     \<or> (\<exists>m. Get_Monitor env k w = Inr m
             \<and> (Labels m ''upbot.app/source'' \<noteq> Some ''ingress-watcher''
                 \<or> Annotations m ''upbot.app/source-ingress'' \<noteq> Some (fst k @ ''/'' @ snd k))) \<Longrightarrow>
   copy2_handleIngressDeletion env k w = (None, w)"
  by (auto simp: copy2_handleIngressDeletion_def IsNotFound_def map_index_eq_iff Let_def)

lemma copy2_Reconcile_absent:
  "Get_Ingress env req w = Inl NotFound \<Longrightarrow>
   copy2_Reconcile r env req w = copy2_handleIngressDeletion env req w"
  by (simp add: copy2_Reconcile_def IsNotFound_def)

lemma copy2_Reconcile_disabled:
  "Get_Ingress env req w = Inr ingress \<Longrightarrow>
   Annotations ingress ''upbot.app/monitor'' = Some ''false''
     \<or> Annotations ingress ''upbot.app/monitor'' = Some ''disabled'' \<Longrightarrow>
   copy2_Reconcile r env req w = copy2_handleMonitorCleanupForDisabledIngress env req w"
  by (auto simp: copy2_Reconcile_def)

lemma copy2_createMonitorFromIngress_calls:
  "issued w (snd (copy2_createMonitorFromIngress r env ingress w)) = [] \<or>
   (\<exists>target. copy2_getTargetFromIngress ingress = Inr target \<and>
      issued w (snd (copy2_createMonitorFromIngress r env ingress w)) =
      [StoreCreate
        \<lparr>Name = Name ingress, Namespace = Namespace ingress, UID = '''',
         Annotations = Map.empty(
           ''upbot.app/auto-generated'' \<mapsto> ''true'',
           ''upbot.app/source-ingress'' \<mapsto> Namespace ingress @ ''/'' @ Name ingress),
         Labels = Map.empty(
           ''upbot.app/source'' \<mapsto> ''ingress-watcher'',
           ''upbot.app/target-type'' \<mapsto> ''http''),
         OwnerReferences = [\<lparr>ref_Kind = ''Ingress'', ref_Name = Name ingress,
                              ref_UID = UID ingress, ref_Controller = True,
                              ref_BlockOwnerDeletion = True\<rparr>],
         Finalizers = [], DeletionTimestamp = None,
         Spec = \<lparr>Type = ''http'', Target = target, Interval = copy2_interval r ingress\<rparr>,
         Status = \<lparr>ExternalID = ''''\<rparr>\<rparr>])"
  by (auto simp: copy2_createMonitorFromIngress_def SetControllerReference_def Create_def
                 issued_def record_call_def Let_def
           split: sum.splits option.splits prod.splits)

lemma copy2_createMonitorFromIngress_creates:
  "copy2_getTargetFromIngress ingress = Inr target \<Longrightarrow>
   ''Ingress'' \<in> set (kinds (Reconciler_Scheme r)) \<Longrightarrow>
   \<exists>m. issued w (snd (copy2_createMonitorFromIngress r env ingress w)) = [StoreCreate m]"
  by (auto simp: copy2_createMonitorFromIngress_def SetControllerReference_def Create_def
                 issued_def record_call_def Let_def
           split: sum.splits option.splits prod.splits)

lemma copy2_updateMonitorIfNeeded_no_create:
  "StoreCreate m \<notin> set (issued w (snd (copy2_updateMonitorIfNeeded r env mon ingress w)))"
  by (auto simp: copy2_updateMonitorIfNeeded_def issued_def Update_calls Let_def
           split: sum.splits if_splits)

lemma copy2_handleIngressDeletion_no_create:
  "StoreCreate m \<notin> set (issued w (snd (copy2_handleIngressDeletion env k w)))"
  by (auto simp: copy2_handleIngressDeletion_def issued_def Delete_calls Let_def
           split: sum.splits if_splits)

lemma copy2_cleanup_disabled_no_create:
  "StoreCreate m \<notin> set (issued w (snd (copy2_handleMonitorCleanupForDisabledIngress env k w)))"
  by (auto simp: copy2_handleMonitorCleanupForDisabledIngress_def issued_def Delete_calls
           split: sum.splits if_splits)

lemma copy2_Reconcile_create_from:
  assumes "StoreCreate m \<in> set (issued w (snd (copy2_Reconcile r env req w)))"
      and "Get_Ingress env req w = Inr ingress"
  shows "StoreCreate m \<in> set (issued w (snd (copy2_createMonitorFromIngress r env ingress w)))"
  using assms copy2_updateMonitorIfNeeded_no_create [of m w r env _ ingress]
        copy2_cleanup_disabled_no_create [of m w env req]
  by (auto simp: copy2_Reconcile_def split: sum.splits if_splits option.splits)

lemma copy2_Reconcile_create_route:
  assumes "StoreCreate m \<in> set (issued w (snd (copy2_Reconcile r env req w)))"
  shows "\<exists>ingress. Get_Ingress env req w = Inr ingress"
  using assms copy2_handleIngressDeletion_no_create [of m w env req]
  by (cases "Get_Ingress env req w") (auto simp: copy2_Reconcile_def split: if_splits)

lemma copy2_validation_failure_surfaced:
  "((\<exists>e. copy2_getTargetFromIngress ingress = Inl e) \<longleftrightarrow>
      (Rules (Ingress_Spec ingress) = []
       \<or> (\<exists>rule rest. Rules (Ingress_Spec ingress) = rule # rest \<and> Host rule = '''')))
   \<and> (copy2_getTargetFromIngress ingress = Inl e \<longrightarrow>
         (\<exists>msg. e = Errorf msg)
         \<and> copy2_createMonitorFromIngress r env ingress w = (Some e, w))"
  by (auto simp: copy2_getTargetFromIngress_def copy2_createMonitorFromIngress_def Let_def
           split: list.splits if_splits option.splits)

lemma copy2_target_examples:
  "copy2_getTargetFromIngress (ingress_with (Map.empty(''upbot.app/path'' \<mapsto> ''health''))
                                            [\<lparr>Host = ''myapp.example.com''\<rparr>])
     = Inr ''http://myapp.example.com/health''"
  "copy2_getTargetFromIngress (ingress_with (Map.empty(''upbot.app/path'' \<mapsto> ''/api/v1/''))
                                            [\<lparr>Host = ''myapp.example.com''\<rparr>])
     = Inr ''http://myapp.example.com/api/v1''"
  "copy2_getTargetFromIngress (ingress_with (Map.empty(''upbot.app/path'' \<mapsto> ''/''))
                                            [\<lparr>Host = ''myapp.example.com''\<rparr>])
     = Inr ''http://myapp.example.com/''"
  "copy2_getTargetFromIngress (ingress_with Map.empty [\<lparr>Host = ''myapp.example.com''\<rparr>])
     = Inr ''http://myapp.example.com''"
  by (simp_all add: copy2_getTargetFromIngress_def ingress_with_def)

lemma copy2_interval_directive:
  "Annotations ingress ''upbot.app/interval'' = Some d \<Longrightarrow> d \<noteq> '''' \<Longrightarrow>
   copy2_interval r ingress = d"
  by (simp add: copy2_interval_def)

lemma copy2_interval_default:
  "Annotations ingress ''upbot.app/interval'' = None
     \<or> Annotations ingress ''upbot.app/interval'' = Some '''' \<Longrightarrow>
   copy2_interval r ingress
     = (if Reconciler_Interval r = '''' then ''30'' else Reconciler_Interval r)"
  by (auto simp: copy2_interval_def Let_def)

lemma copy2_created_monitor:
  "\<exists>m. monitors (snd (copy2_Reconcile example_reconciler env_ok example_key
           (route_world (Some (ingress_with (Map.empty(''upbot.app/interval'' \<mapsto> ''10''))
                                            [\<lparr>Host = ''myapp.example.com''\<rparr>])) None)))
          example_key = Some m
      \<and> Interval (Spec m) = ''10''
      \<and> Labels m ''upbot.app/source'' = Some ''ingress-watcher''
      \<and> Labels m ''upbot.app/target-type'' = Some ''http''
      \<and> Annotations m ''upbot.app/auto-generated'' = Some ''true''
      \<and> Annotations m ''upbot.app/source-ingress'' = Some ''default/my-app''
      \<and> OwnerReferences m = [\<lparr>ref_Kind = ''Ingress'', ref_Name = ''my-app'', ref_UID = ''uid-0'',
                                ref_Controller = True, ref_BlockOwnerDeletion = True\<rparr>]"
  by (simp add: copy2_defs watcher_example_defs)

lemma copy2_disabled_route_deletes:
  "copy2_Reconcile example_reconciler env_ok example_key
      (route_world (Some (ingress_with (Map.empty(''upbot.app/monitor'' \<mapsto> ''false''))
                                       [\<lparr>Host = ''myapp.example.com''\<rparr>]))
                   (Some managed_monitor))
     = (None, \<lparr>ingresses = ingresses
                  (route_world (Some (ingress_with (Map.empty(''upbot.app/monitor'' \<mapsto> ''false''))
                                       [\<lparr>Host = ''myapp.example.com''\<rparr>])) None),
               monitors = Map.empty,
               calls = [StoreDelete managed_monitor]\<rparr>)"
  by (simp add: copy2_defs watcher_example_defs fun_eq_iff)

lemma copy2_disabled_route_no_monitor:
  "copy2_Reconcile example_reconciler env_ok example_key
      (route_world (Some (ingress_with (Map.empty(''upbot.app/monitor'' \<mapsto> ''disabled''))
                                       [\<lparr>Host = ''myapp.example.com''\<rparr>])) None)
     = (None, route_world (Some (ingress_with (Map.empty(''upbot.app/monitor'' \<mapsto> ''disabled''))
                                       [\<lparr>Host = ''myapp.example.com''\<rparr>])) None)"
  by (simp add: copy2_defs watcher_example_defs)

lemma copy2_delete_not_found_is_returned:
  "Get_Ingress env req w = Inr ingress \<Longrightarrow>
   Annotations ingress ''upbot.app/monitor'' = Some ''false'' \<Longrightarrow>
   Get_Monitor env req w = Inr m \<Longrightarrow>
   Labels m ''upbot.app/source'' = Some ''ingress-watcher'' \<Longrightarrow>
   Delete_fault env = Some NotFound \<Longrightarrow>
   copy2_Reconcile r env req w = (Some NotFound, record_call (StoreDelete m) w)"
  by (simp add: copy2_Reconcile_def copy2_handleMonitorCleanupForDisabledIngress_def
                map_index_def Delete_def Let_def)

section \<open>Ingress watcher: absent or disabled route\<close>

text \<open>
  Claim C1, as the second text of the watcher has it. The route is absent (the get answers not-found) or its
  annotation \<open>upbot.app/monitor\<close> is \<open>false\<close> or \<open>disabled\<close>. When no Monitor is at the
  key, or the Monitor there does not carry the ownership label, the reconcile returns
  success and the world is as before: no call is issued. For an absent route the same holds
  when the Monitor's source-ingress annotation is not \<open>namespace/name\<close> of the key. When
  the Monitor carries the ownership label (and, for an absent route, that annotation), the
  reconcile issues exactly one call, the store delete of that Monitor; when the store
  serves it the Monitor is gone and the reconcile returns success, and when the delete
  fails with \<open>e\<close>, not-found included, the reconcile returns \<open>e\<close>.
\<close>

theorem cleanup_of_absent_or_disabled_route:
  assumes route: "Get_Ingress env req w = Inl NotFound
                  \<or> (\<exists>ingress. Get_Ingress env req w = Inr ingress
                        \<and> (Annotations ingress ''upbot.app/monitor'' = Some ''false''
                            \<or> Annotations ingress ''upbot.app/monitor'' = Some ''disabled''))"
  shows "(Get_Monitor env req w = Inl NotFound \<longrightarrow> copy2_Reconcile r env req w = (None, w))
      \<and> (Get_Monitor env req w = Inr m \<and> Labels m ''upbot.app/source'' \<noteq> Some ''ingress-watcher'' \<longrightarrow>
            copy2_Reconcile r env req w = (None, w))
      \<and> (Get_Monitor env req w = Inr m \<and> Labels m ''upbot.app/source'' = Some ''ingress-watcher''
            \<and> Get_Ingress env req w = Inl NotFound
            \<and> Annotations m ''upbot.app/source-ingress'' \<noteq> Some (fst req @ ''/'' @ snd req) \<longrightarrow>
            copy2_Reconcile r env req w = (None, w))
      \<and> (Get_Monitor env req w = Inr m \<and> Labels m ''upbot.app/source'' = Some ''ingress-watcher''
            \<and> (Get_Ingress env req w = Inl NotFound \<longrightarrow>
                 Annotations m ''upbot.app/source-ingress'' = Some (fst req @ ''/'' @ snd req)) \<longrightarrow>
            issued w (snd (copy2_Reconcile r env req w)) = [StoreDelete m]
            \<and> (Delete_fault env = None \<and> monitors w (key_of m) \<noteq> None \<longrightarrow>
                 fst (copy2_Reconcile r env req w) = None
                 \<and> monitors (snd (copy2_Reconcile r env req w)) = (monitors w)(key_of m := None))
            \<and> (Delete_fault env = Some e \<longrightarrow>
                 copy2_Reconcile r env req w = (Some e, record_call (StoreDelete m) w)))"
proof -
  let ?R = "copy2_Reconcile r env req w"
  have absent: "?R = (None, w)" if "Get_Monitor env req w = Inl NotFound"
    using route that
    by (auto simp: copy2_Reconcile_absent copy2_Reconcile_disabled
                   copy2_cleanup_absent_skip copy2_cleanup_disabled_skip)
  have unmanaged: "?R = (None, w)"
    if "Get_Monitor env req w = Inr m \<and> Labels m ''upbot.app/source'' \<noteq> Some ''ingress-watcher''"
    using route that
    by (auto simp: copy2_Reconcile_absent copy2_Reconcile_disabled
                   copy2_cleanup_absent_skip copy2_cleanup_disabled_skip)
  have other_source: "?R = (None, w)"
    if "Get_Monitor env req w = Inr m \<and> Labels m ''upbot.app/source'' = Some ''ingress-watcher''
            \<and> Get_Ingress env req w = Inl NotFound
            \<and> Annotations m ''upbot.app/source-ingress'' \<noteq> Some (fst req @ ''/'' @ snd req)"
    using that by (simp add: copy2_Reconcile_absent copy2_cleanup_absent_skip)
  have deleted: "issued w (snd ?R) = [StoreDelete m]
            \<and> (Delete_fault env = None \<and> monitors w (key_of m) \<noteq> None \<longrightarrow>
                 fst ?R = None \<and> monitors (snd ?R) = (monitors w)(key_of m := None))
            \<and> (Delete_fault env = Some e \<longrightarrow> ?R = (Some e, record_call (StoreDelete m) w))"
    if h: "Get_Monitor env req w = Inr m \<and> Labels m ''upbot.app/source'' = Some ''ingress-watcher''
            \<and> (Get_Ingress env req w = Inl NotFound \<longrightarrow>
                 Annotations m ''upbot.app/source-ingress'' = Some (fst req @ ''/'' @ snd req))"
  proof -
    have step: "?R = Delete env m w"
      using route h
      by (auto simp: copy2_Reconcile_absent copy2_Reconcile_disabled
                     copy2_cleanup_absent copy2_cleanup_disabled)
    have c: "issued w (snd ?R) = [StoreDelete m]"
      by (simp add: step issued_def Delete_calls)
    have ok: "fst ?R = None \<and> monitors (snd ?R) = (monitors w)(key_of m := None)"
      if "Delete_fault env = None \<and> monitors w (key_of m) \<noteq> None"
    proof -
      from that obtain old where "monitors w (key_of m) = Some old" by auto
      with that show ?thesis using Delete_ok_result [of env w m old] by (simp add: step)
    qed
    have ko: "?R = (Some e, record_call (StoreDelete m) w)" if "Delete_fault env = Some e"
      using that by (simp add: step Delete_fault_result)
    from c ok ko show ?thesis by blast
  qed
  from absent unmanaged other_source deleted show ?thesis by blast
qed

theorem cleanup_of_absent_or_disabled_route_witness:
  "Get_Ingress env_ok example_key (route_world (Some disabled_ingress) (Some managed_monitor))
     = Inr disabled_ingress
   \<and> Annotations disabled_ingress ''upbot.app/monitor'' = Some ''false''
   \<and> Labels managed_monitor ''upbot.app/source'' = Some ''ingress-watcher''
   \<and> copy2_Reconcile example_reconciler env_ok example_key
        (route_world (Some disabled_ingress) (Some managed_monitor))
       = (None, \<lparr>ingresses = ingresses (route_world (Some disabled_ingress) None),
                 monitors = Map.empty, calls = [StoreDelete managed_monitor]\<rparr>)
   \<and> Get_Ingress env_ok example_key (route_world None (Some owned_monitor)) = Inl NotFound
   \<and> Annotations owned_monitor ''upbot.app/source-ingress'' = Some ''default/my-app''
   \<and> issued (route_world None (Some owned_monitor))
        (snd (copy2_Reconcile example_reconciler env_ok example_key
                (route_world None (Some owned_monitor)))) = [StoreDelete owned_monitor]
   \<and> monitors (snd (copy2_Reconcile example_reconciler env_ok example_key
                (route_world None (Some owned_monitor)))) example_key = None
   \<and> copy2_Reconcile example_reconciler env_ok example_key (route_world (Some disabled_ingress) None)
       = (None, route_world (Some disabled_ingress) None)
   \<and> Labels example_monitor ''upbot.app/source'' = None
   \<and> copy2_Reconcile example_reconciler env_ok example_key
        (route_world (Some disabled_ingress) (Some example_monitor))
       = (None, route_world (Some disabled_ingress) (Some example_monitor))
   \<and> copy2_Reconcile example_reconciler env_ok example_key (route_world None (Some managed_monitor))
       = (None, route_world None (Some managed_monitor))
   \<and> copy2_Reconcile example_reconciler env_delete_not_found example_key
        (route_world (Some disabled_ingress) (Some managed_monitor))
       = (Some NotFound,
          record_call (StoreDelete managed_monitor)
            (route_world (Some disabled_ingress) (Some managed_monitor)))"
proof -
  let ?wd = "route_world (Some disabled_ingress) (Some managed_monitor)"
  let ?wa = "route_world None (Some owned_monitor)"
  let ?wn = "route_world (Some disabled_ingress) None"
  let ?wu = "route_world (Some disabled_ingress) (Some example_monitor)"
  let ?wo = "route_world None (Some managed_monitor)"
  have gi: "Get_Ingress env_ok example_key (route_world (Some disabled_ingress) mo) = Inr disabled_ingress"
           "Get_Ingress env_delete_not_found example_key (route_world (Some disabled_ingress) mo)
              = Inr disabled_ingress"
           "Get_Ingress env_ok example_key (route_world None mo) = Inl NotFound" for mo
    by (simp_all add: Get_Ingress_def route_world_def env_ok_def env_delete_not_found_def)
  have gm: "Get_Monitor env_ok example_key (route_world i (Some mon)) = Inr mon"
           "Get_Monitor env_delete_not_found example_key (route_world i (Some mon)) = Inr mon"
           "Get_Monitor env_ok example_key (route_world i None) = Inl NotFound" for i mon
    by (simp_all add: Get_Monitor_def route_world_def env_ok_def env_delete_not_found_def)
  have dis: "Annotations disabled_ingress ''upbot.app/monitor'' = Some ''false''"
    by (simp add: disabled_ingress_def ingress_with_def)
  have lab: "Labels managed_monitor ''upbot.app/source'' = Some ''ingress-watcher''"
            "Labels owned_monitor ''upbot.app/source'' = Some ''ingress-watcher''"
            "Labels example_monitor ''upbot.app/source'' = None"
    and src: "Annotations owned_monitor ''upbot.app/source-ingress'' = Some ''default/my-app''"
             "Annotations managed_monitor ''upbot.app/source-ingress'' = None"
    and key: "fst example_key @ ''/'' @ snd example_key = ''default/my-app''"
             "key_of managed_monitor = example_key" "key_of owned_monitor = example_key"
    and flt: "Delete_fault env_ok = None" "Delete_fault env_delete_not_found = Some NotFound"
    by (simp_all add: managed_monitor_def owned_monitor_def example_monitor_def example_key_def
                      key_of_def env_ok_def env_delete_not_found_def)
  have route_d: "Get_Ingress env_ok example_key (route_world (Some disabled_ingress) mo) = Inl NotFound
                  \<or> (\<exists>ingress. Get_Ingress env_ok example_key (route_world (Some disabled_ingress) mo)
                                   = Inr ingress
                        \<and> (Annotations ingress ''upbot.app/monitor'' = Some ''false''
                            \<or> Annotations ingress ''upbot.app/monitor'' = Some ''disabled''))" for mo
    using gi(1) dis by simp
  have route_f: "Get_Ingress env_delete_not_found example_key ?wd = Inl NotFound
                  \<or> (\<exists>ingress. Get_Ingress env_delete_not_found example_key ?wd = Inr ingress
                        \<and> (Annotations ingress ''upbot.app/monitor'' = Some ''false''
                            \<or> Annotations ingress ''upbot.app/monitor'' = Some ''disabled''))"
    using gi(2) dis by simp
  have route_a: "Get_Ingress env_ok example_key (route_world None mo) = Inl NotFound
                  \<or> (\<exists>ingress. Get_Ingress env_ok example_key (route_world None mo) = Inr ingress
                        \<and> (Annotations ingress ''upbot.app/monitor'' = Some ''false''
                            \<or> Annotations ingress ''upbot.app/monitor'' = Some ''disabled''))" for mo
    using gi(3) by simp
  have st: "monitors ?wd (key_of managed_monitor) \<noteq> None"
           "monitors ?wa (key_of owned_monitor) \<noteq> None"
    by (simp_all add: route_world_def key)
  note t = cleanup_of_absent_or_disabled_route
  from t [OF route_d, where mo1 = "Some managed_monitor" and m = managed_monitor
                 and r = example_reconciler] gm(1) gi(1) lab flt key st
  have c1: "issued ?wd (snd (copy2_Reconcile example_reconciler env_ok example_key ?wd))
              = [StoreDelete managed_monitor]
            \<and> fst (copy2_Reconcile example_reconciler env_ok example_key ?wd) = None
            \<and> monitors (snd (copy2_Reconcile example_reconciler env_ok example_key ?wd))
                = (monitors ?wd)(example_key := None)"
    by simp
  have e1: "copy2_Reconcile example_reconciler env_ok example_key ?wd
       = (None, \<lparr>ingresses = ingresses ?wn, monitors = Map.empty,
                 calls = [StoreDelete managed_monitor]\<rparr>)"
    by (simp add: copy2_defs watcher_example_defs disabled_ingress_def fun_eq_iff)
  from t [OF route_a, where mo1 = "Some owned_monitor" and m = owned_monitor
                 and r = example_reconciler] gm(1) gi(3) lab src flt key st
  have c2: "issued ?wa (snd (copy2_Reconcile example_reconciler env_ok example_key ?wa))
              = [StoreDelete owned_monitor]
            \<and> monitors (snd (copy2_Reconcile example_reconciler env_ok example_key ?wa)) example_key
                = None"
    by simp
  from t [OF route_d, where mo1 = None and r = example_reconciler] gm(3)
  have c3: "copy2_Reconcile example_reconciler env_ok example_key ?wn = (None, ?wn)"
    by simp
  from t [OF route_d, where mo1 = "Some example_monitor" and m = example_monitor
                 and r = example_reconciler] gm(1) lab
  have c4: "copy2_Reconcile example_reconciler env_ok example_key ?wu = (None, ?wu)"
    by simp
  from t [OF route_a, where mo1 = "Some managed_monitor" and m = managed_monitor
                 and r = example_reconciler] gm(1) gi(3) lab src key
  have c5: "copy2_Reconcile example_reconciler env_ok example_key ?wo = (None, ?wo)"
    by simp
  from t [OF route_f, where m = managed_monitor and r = example_reconciler and e = NotFound] gm(2) gi(2) lab flt
  have c6: "copy2_Reconcile example_reconciler env_delete_not_found example_key ?wd
       = (Some NotFound, record_call (StoreDelete managed_monitor) ?wd)"
    by simp
  show ?thesis
    using gi(1) [of "Some managed_monitor"] dis lab(1) e1 gi(3) [of "Some owned_monitor"] src(1)
          c2 c3 lab(3) c4 c5 c6
    by (intro conjI) simp_all
qed

text \<open>
  The wording of the specification fails on two inputs. With the route absent and a Monitor at the
  key that carries the ownership label but no source-ingress annotation, the reconcile
  returns success and leaves the Monitor in the store. With a disabled route, a managed
  Monitor and a store that answers not-found to the delete, the reconcile returns the
  not-found error.
\<close>

theorem cleanup_counterexample:
  "Labels managed_monitor ''upbot.app/source'' = Some ''ingress-watcher''
   \<and> copy2_Reconcile example_reconciler env_ok example_key (route_world None (Some managed_monitor))
       = (None, route_world None (Some managed_monitor))
   \<and> copy2_Reconcile example_reconciler env_delete_not_found example_key
         (route_world (Some disabled_ingress) (Some managed_monitor))
       = (Some NotFound,
          record_call (StoreDelete managed_monitor)
            (route_world (Some disabled_ingress) (Some managed_monitor)))"
  by (simp add: copy2_defs watcher_example_defs disabled_ingress_def env_delete_not_found_def)

section \<open>Monitor lifecycle: the finalizer comes before the external create\<close>

text \<open>
  Claim C2. No external create call is issued for a Monitor before the finalizer has been
  attached and persisted. First conjunct: whenever a reconcile issues an external create,
  the Monitor it read from the store already carried the finalizer. Second conjunct: a
  reconcile that finds a Monitor without the finalizer (and not being deleted) issues
  exactly one call, the store update that attaches the finalizer, and nothing else; when
  the store accepts it the finalizer is persisted, and the next reconcile of the same key
  is the one that starts with the external create. So the attach is reconcile 1 and the
  create is reconcile 2 or later.
\<close>

theorem marker_before_external_create:
  "((\<exists>c \<in> set (issued w (snd (MonitorReconciler_Reconcile env req w))). is_ExtCreate c) \<longrightarrow>
      (\<exists>m0. monitors w req = Some m0 \<and> ContainsFinalizer m0 monitorFinalizer))
   \<and> (monitors w req = Some m \<and> Get_Monitor_fault env = None
        \<and> IsZero (DeletionTimestamp m) \<and> \<not> ContainsFinalizer m monitorFinalizer \<longrightarrow>
        issued w (snd (MonitorReconciler_Reconcile env req w))
          = [StoreUpdate (m\<lparr>Finalizers := Finalizers m @ [monitorFinalizer]\<rparr>)]
        \<and> (Update_fault env = None \<and> key_of m = req \<longrightarrow>
             fst (MonitorReconciler_Reconcile env req w) = None
             \<and> monitors (snd (MonitorReconciler_Reconcile env req w)) req
                 = Some (m\<lparr>Finalizers := Finalizers m @ [monitorFinalizer]\<rparr>)
             \<and> (ExternalID (Status m) = '''' \<and> Get_Monitor_fault env2 = None \<longrightarrow>
                  (\<exists>rest. issued (snd (MonitorReconciler_Reconcile env req w))
                            (snd (MonitorReconciler_Reconcile env2 req
                                   (snd (MonitorReconciler_Reconcile env req w))))
                          = ExtCreate (createRequestOf m) # rest))))"
proof (intro conjI impI)
  assume "\<exists>c \<in> set (issued w (snd (MonitorReconciler_Reconcile env req w))). is_ExtCreate c"
  then show "\<exists>m0. monitors w req = Some m0 \<and> ContainsFinalizer m0 monitorFinalizer"
    by (rule Reconcile_create_needs_marker)
next
  assume fresh: "monitors w req = Some m \<and> Get_Monitor_fault env = None
        \<and> IsZero (DeletionTimestamp m) \<and> \<not> ContainsFinalizer m monitorFinalizer"
  let ?m' = "m\<lparr>Finalizers := Finalizers m @ [monitorFinalizer]\<rparr>"
  from fresh have step: "MonitorReconciler_Reconcile env req w = Update env ?m' w"
    by (simp add: Reconcile_fresh Get_Monitor_stored AddFinalizer_fresh)
  show "issued w (snd (MonitorReconciler_Reconcile env req w)) = [StoreUpdate ?m']"
    by (simp add: step issued_def Update_calls)
  assume ok: "Update_fault env = None \<and> key_of m = req"
  have km: "key_of ?m' = req" using ok by (simp add: key_of_def)
  from ok fresh km have upd: "Update env ?m' w
      = (None, (record_call (StoreUpdate ?m') w)\<lparr>monitors := (monitors w)(req \<mapsto> ?m')\<rparr>)"
    using Update_ok_result [of env w ?m' m] by simp
  show "fst (MonitorReconciler_Reconcile env req w) = None" by (simp add: step upd)
  show stored: "monitors (snd (MonitorReconciler_Reconcile env req w)) req = Some ?m'"
    by (simp add: step upd)
  assume armed: "ExternalID (Status m) = '''' \<and> Get_Monitor_fault env2 = None"
  let ?w1 = "snd (MonitorReconciler_Reconcile env req w)"
  have got: "Get_Monitor env2 req ?w1 = Inr ?m'"
    using armed stored by (simp add: Get_Monitor_stored)
  have "MonitorReconciler_Reconcile env2 req ?w1 = handleCreateOrUpdate env2 ?m' ?w1"
    using got fresh by (simp add: Reconcile_armed ContainsFinalizer_def)
  moreover have "createRequestOf ?m' = createRequestOf m" by (simp add: createRequestOf_def)
  moreover have "ExternalID (Status ?m') = ''''" using armed by simp
  ultimately show "\<exists>rest. issued ?w1 (snd (MonitorReconciler_Reconcile env2 req ?w1))
                      = ExtCreate (createRequestOf m) # rest"
    using handleCreateOrUpdate_creates [of ?m' env2 ?w1] by (auto simp: issued_def)
qed

theorem marker_before_external_create_witness:
  "(\<exists>c \<in> set (issued (world_with armed_monitor)
        (snd (MonitorReconciler_Reconcile env_ok (''default'', ''my-app'') (world_with armed_monitor)))).
        is_ExtCreate c)
   \<and> (\<exists>m0. monitors (world_with armed_monitor) (''default'', ''my-app'') = Some m0
            \<and> ContainsFinalizer m0 monitorFinalizer)
   \<and> monitors (world_with example_monitor) (''default'', ''my-app'') = Some example_monitor
   \<and> Get_Monitor_fault env_ok = None \<and> IsZero (DeletionTimestamp example_monitor)
   \<and> \<not> ContainsFinalizer example_monitor monitorFinalizer
   \<and> Update_fault env_ok = None \<and> key_of example_monitor = (''default'', ''my-app'')
   \<and> ExternalID (Status example_monitor) = ''''
   \<and> issued (world_with example_monitor)
        (snd (MonitorReconciler_Reconcile env_ok (''default'', ''my-app'') (world_with example_monitor)))
       = [StoreUpdate (example_monitor\<lparr>Finalizers := [monitorFinalizer]\<rparr>)]
   \<and> (\<exists>rest. issued
         (snd (MonitorReconciler_Reconcile env_ok (''default'', ''my-app'') (world_with example_monitor)))
         (snd (MonitorReconciler_Reconcile env_ok (''default'', ''my-app'')
            (snd (MonitorReconciler_Reconcile env_ok (''default'', ''my-app'') (world_with example_monitor)))))
        = ExtCreate (createRequestOf example_monitor) # rest)"
proof -
  let ?k = "(''default'', ''my-app'')"
  have create: "\<exists>c \<in> set (issued (world_with armed_monitor)
        (snd (MonitorReconciler_Reconcile env_ok ?k (world_with armed_monitor)))). is_ExtCreate c"
    by (simp add: model_defs example_defs)
  have fresh: "monitors (world_with example_monitor) ?k = Some example_monitor
     \<and> Get_Monitor_fault env_ok = None \<and> IsZero (DeletionTimestamp example_monitor)
     \<and> \<not> ContainsFinalizer example_monitor monitorFinalizer"
    by (simp add: model_defs example_defs)
  have ok: "Update_fault env_ok = None \<and> key_of example_monitor = ?k"
    by (simp add: key_of_def example_defs)
  have armed: "ExternalID (Status example_monitor) = '''' \<and> Get_Monitor_fault env_ok = None"
    by (simp add: example_defs)
  have fin: "Finalizers example_monitor = []" by (simp add: example_defs)
  note a = marker_before_external_create
             [of "world_with armed_monitor" env_ok ?k armed_monitor env_ok]
  note b = marker_before_external_create
             [of "world_with example_monitor" env_ok ?k example_monitor env_ok]
  from a create have marked: "\<exists>m0. monitors (world_with armed_monitor) ?k = Some m0
            \<and> ContainsFinalizer m0 monitorFinalizer" by blast
  from b fresh ok armed fin show ?thesis using create marked by simp
qed

section \<open>Monitor lifecycle: creation is gated by the external identifier\<close>

text \<open>
  Claim C3. For a Monitor that is not being deleted and carries the finalizer, the
  reconcile issues an external create if and only if \<open>status.externalID\<close> is empty. When
  the create succeeds and returns the identifier \<open>i\<close>, the reconcile issues the create and
  then a status update that writes \<open>i\<close> into \<open>status.externalID\<close>, and once the store
  accepts that write the stored Monitor carries \<open>i\<close>. When the create fails with \<open>e\<close>, the
  reconcile returns \<open>e\<close>, has issued the create call only, and leaves the store as it was,
  so the next reconcile of the key starts with the same create again.
\<close>

theorem create_iff_no_externalID:
  assumes stored: "monitors w req = Some m" "key_of m = req" "Get_Monitor_fault env = None"
      and live: "IsZero (DeletionTimestamp m)" "ContainsFinalizer m monitorFinalizer"
  shows "((\<exists>c \<in> set (issued w (snd (MonitorReconciler_Reconcile env req w))). is_ExtCreate c)
            \<longleftrightarrow> ExternalID (Status m) = '''')
      \<and> (ExternalID (Status m) = '''' \<and> Create_Execute env = (Some resp, None) \<and> Id resp = Some i \<longrightarrow>
            issued w (snd (MonitorReconciler_Reconcile env req w))
              = [ExtCreate (createRequestOf m),
                 StoreStatusUpdate (m\<lparr>Status := (Status m)\<lparr>ExternalID := i\<rparr>\<rparr>)]
            \<and> (Status_Update_fault env = None \<longrightarrow>
                 fst (MonitorReconciler_Reconcile env req w) = None
                 \<and> monitors (snd (MonitorReconciler_Reconcile env req w)) req
                     = Some (m\<lparr>Status := (Status m)\<lparr>ExternalID := i\<rparr>\<rparr>)))
      \<and> (ExternalID (Status m) = '''' \<and> snd (Create_Execute env) = Some e \<longrightarrow>
            MonitorReconciler_Reconcile env req w
              = (Some e, record_call (ExtCreate (createRequestOf m)) w)
            \<and> monitors (snd (MonitorReconciler_Reconcile env req w)) = monitors w
            \<and> (Get_Monitor_fault env2 = None \<longrightarrow>
                 (\<exists>rest. issued (snd (MonitorReconciler_Reconcile env req w))
                           (snd (MonitorReconciler_Reconcile env2 req
                                  (snd (MonitorReconciler_Reconcile env req w))))
                         = ExtCreate (createRequestOf m) # rest)))"
proof -
  have step: "MonitorReconciler_Reconcile env req w = handleCreateOrUpdate env m w"
    using stored live by (simp add: Reconcile_armed Get_Monitor_stored)
  have gated: "(\<exists>c \<in> set (issued w (snd (MonitorReconciler_Reconcile env req w))). is_ExtCreate c)
            \<longleftrightarrow> ExternalID (Status m) = ''''"
  proof (cases "ExternalID (Status m) = ''''")
    case True
    then show ?thesis
      using handleCreateOrUpdate_creates [of m env w] by (auto simp: step issued_def)
  next
    case False
    then show ?thesis by (simp add: step handleCreateOrUpdate_synced)
  qed
  have success: "issued w (snd (MonitorReconciler_Reconcile env req w))
              = [ExtCreate (createRequestOf m),
                 StoreStatusUpdate (m\<lparr>Status := (Status m)\<lparr>ExternalID := i\<rparr>\<rparr>)]
            \<and> (Status_Update_fault env = None \<longrightarrow>
                 fst (MonitorReconciler_Reconcile env req w) = None
                 \<and> monitors (snd (MonitorReconciler_Reconcile env req w)) req
                     = Some (m\<lparr>Status := (Status m)\<lparr>ExternalID := i\<rparr>\<rparr>))"
    if h: "ExternalID (Status m) = '''' \<and> Create_Execute env = (Some resp, None) \<and> Id resp = Some i"
  proof -
    let ?m' = "m\<lparr>Status := (Status m)\<lparr>ExternalID := i\<rparr>\<rparr>"
    let ?w1 = "record_call (ExtCreate (createRequestOf m)) w"
    have s2: "MonitorReconciler_Reconcile env req w = Status_Update env ?m' ?w1"
      using h by (simp add: step handleCreateOrUpdate_create_ok)
    have k: "key_of ?m' = req" using stored by (simp add: key_of_def)
    have c: "issued w (snd (MonitorReconciler_Reconcile env req w))
               = [ExtCreate (createRequestOf m), StoreStatusUpdate ?m']"
      by (simp add: s2 issued_def Status_Update_calls)
    have p: "fst (MonitorReconciler_Reconcile env req w) = None
             \<and> monitors (snd (MonitorReconciler_Reconcile env req w)) req = Some ?m'"
      if "Status_Update_fault env = None"
      using Status_Update_ok_result [of env ?w1 ?m' m] that stored k by (simp add: s2)
    from c p show ?thesis by blast
  qed
  have failure: "MonitorReconciler_Reconcile env req w
              = (Some e, record_call (ExtCreate (createRequestOf m)) w)
            \<and> monitors (snd (MonitorReconciler_Reconcile env req w)) = monitors w
            \<and> (Get_Monitor_fault env2 = None \<longrightarrow>
                 (\<exists>rest. issued (snd (MonitorReconciler_Reconcile env req w))
                           (snd (MonitorReconciler_Reconcile env2 req
                                  (snd (MonitorReconciler_Reconcile env req w))))
                         = ExtCreate (createRequestOf m) # rest))"
    if h: "ExternalID (Status m) = '''' \<and> snd (Create_Execute env) = Some e"
  proof -
    let ?w1 = "record_call (ExtCreate (createRequestOf m)) w"
    have s2: "MonitorReconciler_Reconcile env req w = (Some e, ?w1)"
      using h by (simp add: step handleCreateOrUpdate_create_failed)
    have retry: "\<exists>rest. issued ?w1 (snd (MonitorReconciler_Reconcile env2 req ?w1))
                         = ExtCreate (createRequestOf m) # rest"
      if "Get_Monitor_fault env2 = None"
    proof -
      have "MonitorReconciler_Reconcile env2 req ?w1 = handleCreateOrUpdate env2 m ?w1"
        using that stored live by (simp add: Reconcile_armed Get_Monitor_stored)
      then show ?thesis
        using h handleCreateOrUpdate_creates [of m env2 ?w1] by (auto simp: issued_def)
    qed
    from retry show ?thesis by (simp add: s2)
  qed
  from gated success failure show ?thesis by blast
qed

theorem create_iff_no_externalID_witness:
  "monitors (world_with armed_monitor) example_key = Some armed_monitor
   \<and> key_of armed_monitor = example_key \<and> Get_Monitor_fault env_ok = None
   \<and> IsZero (DeletionTimestamp armed_monitor) \<and> ContainsFinalizer armed_monitor monitorFinalizer
   \<and> ExternalID (Status armed_monitor) = ''''
   \<and> Create_Execute env_ok = (Some \<lparr>Id = Some ''42''\<rparr>, None)
   \<and> Status_Update_fault env_ok = None
   \<and> snd (Create_Execute env_create_fails) = Some (GenericOpenAPIError ''500 Internal Server Error'')
   \<and> issued (world_with armed_monitor)
        (snd (MonitorReconciler_Reconcile env_ok example_key (world_with armed_monitor)))
       = [ExtCreate (createRequestOf armed_monitor), StoreStatusUpdate synced_monitor]
   \<and> MonitorReconciler_Reconcile env_ok example_key (world_with armed_monitor)
       = (None, \<lparr>ingresses = Map.empty, monitors = Map.empty(example_key \<mapsto> synced_monitor),
                 calls = [ExtCreate (createRequestOf armed_monitor), StoreStatusUpdate synced_monitor]\<rparr>)
   \<and> MonitorReconciler_Reconcile env_create_fails example_key (world_with armed_monitor)
       = (Some (GenericOpenAPIError ''500 Internal Server Error''),
          record_call (ExtCreate (createRequestOf armed_monitor)) (world_with armed_monitor))
   \<and> (\<exists>rest. issued
          (snd (MonitorReconciler_Reconcile env_create_fails example_key (world_with armed_monitor)))
          (snd (MonitorReconciler_Reconcile env_ok example_key
             (snd (MonitorReconciler_Reconcile env_create_fails example_key (world_with armed_monitor)))))
         = ExtCreate (createRequestOf armed_monitor) # rest)"
proof -
  let ?w = "world_with armed_monitor"
  have stored: "monitors ?w example_key = Some armed_monitor"
    and k: "key_of armed_monitor = example_key"
    and g: "Get_Monitor_fault env_ok = None" "Get_Monitor_fault env_create_fails = None"
    and live: "IsZero (DeletionTimestamp armed_monitor)"
              "ContainsFinalizer armed_monitor monitorFinalizer"
    and armed: "ExternalID (Status armed_monitor) = ''''"
    and ok: "Create_Execute env_ok = (Some \<lparr>Id = Some ''42''\<rparr>, None)"
            "Id \<lparr>Id = Some ''42''\<rparr> = Some ''42''" "Status_Update_fault env_ok = None"
    and ko: "snd (Create_Execute env_create_fails) = Some (GenericOpenAPIError ''500 Internal Server Error'')"
    and upd: "armed_monitor\<lparr>Status := (Status armed_monitor)\<lparr>ExternalID := ''42''\<rparr>\<rparr> = synced_monitor"
    by (simp_all add: example_defs example_key_def key_of_def ContainsFinalizer_def)
  note a = create_iff_no_externalID [OF stored k g(1) live, of "\<lparr>Id = Some ''42''\<rparr>" "''42''"]
  note b = create_iff_no_externalID [OF stored k g(2) live,
             of _ _ "GenericOpenAPIError ''500 Internal Server Error''" env_ok]
  have eval: "MonitorReconciler_Reconcile env_ok example_key ?w
       = (None, \<lparr>ingresses = Map.empty, monitors = Map.empty(example_key \<mapsto> synced_monitor),
                 calls = [ExtCreate (createRequestOf armed_monitor), StoreStatusUpdate synced_monitor]\<rparr>)"
    by (simp add: model_defs example_defs example_key_def)
  from a armed ok have c1: "issued ?w (snd (MonitorReconciler_Reconcile env_ok example_key ?w))
       = [ExtCreate (createRequestOf armed_monitor), StoreStatusUpdate synced_monitor]"
    by (simp add: upd)
  from b armed ko have c2: "MonitorReconciler_Reconcile env_create_fails example_key ?w
       = (Some (GenericOpenAPIError ''500 Internal Server Error''),
          record_call (ExtCreate (createRequestOf armed_monitor)) ?w)"
    by blast
  from b armed ko g have c3: "\<exists>rest. issued
          (snd (MonitorReconciler_Reconcile env_create_fails example_key ?w))
          (snd (MonitorReconciler_Reconcile env_ok example_key
             (snd (MonitorReconciler_Reconcile env_create_fails example_key ?w))))
         = ExtCreate (createRequestOf armed_monitor) # rest"
    by blast
  show ?thesis
    using stored k g(1) live armed ok(1,3) ko c1 eval c2 c3 by (intro conjI)
qed

section \<open>Monitor lifecycle: deletion\<close>

text \<open>
  Claim C4. For a Monitor with a deletion timestamp: without the finalizer the reconcile
  is a no-op. With the finalizer and a non-empty \<open>externalID\<close> the first call is the
  external delete. A delete failure that is not a 404 is returned, no store write is made
  and the stored Monitor keeps its finalizer. When \<open>externalID\<close> is empty, or the delete
  succeeds, or it fails with HTTP status 404, the reconcile issues the store update that
  removes the finalizer, and once the store accepts that write the stored Monitor is
  without the finalizer and the reconcile returns success.
\<close>

theorem deletion_handling:
  assumes stored: "monitors w req = Some m" "key_of m = req" "Get_Monitor_fault env = None"
      and deleting: "\<not> IsZero (DeletionTimestamp m)"
  shows "(\<not> ContainsFinalizer m monitorFinalizer \<longrightarrow>
            MonitorReconciler_Reconcile env req w = (None, w))
      \<and> (ContainsFinalizer m monitorFinalizer \<and> ExternalID (Status m) \<noteq> '''' \<longrightarrow>
            (\<exists>rest. issued w (snd (MonitorReconciler_Reconcile env req w))
                      = ExtDelete (ExternalID (Status m)) # rest))
      \<and> (ContainsFinalizer m monitorFinalizer \<and> ExternalID (Status m) \<noteq> ''''
            \<and> Delete_Execute env = (hr, Some e)
            \<and> \<not> (\<exists>resp. hr = Some resp \<and> StatusCode resp = 404) \<longrightarrow>
            MonitorReconciler_Reconcile env req w
              = (Some e, record_call (ExtDelete (ExternalID (Status m))) w)
            \<and> monitors (snd (MonitorReconciler_Reconcile env req w)) req = Some m)
      \<and> (ContainsFinalizer m monitorFinalizer
            \<and> (ExternalID (Status m) = '''' \<or> snd (Delete_Execute env) = None
                \<or> (\<exists>resp e'. Delete_Execute env = (Some resp, Some e') \<and> StatusCode resp = 404)) \<longrightarrow>
            issued w (snd (MonitorReconciler_Reconcile env req w))
              = (if ExternalID (Status m) = '''' then [] else [ExtDelete (ExternalID (Status m))])
                @ [StoreUpdate (RemoveFinalizer m monitorFinalizer)]
            \<and> (Update_fault env = None \<longrightarrow>
                 fst (MonitorReconciler_Reconcile env req w) = None
                 \<and> monitors (snd (MonitorReconciler_Reconcile env req w)) req
                     = Some (RemoveFinalizer m monitorFinalizer)
                 \<and> \<not> ContainsFinalizer (RemoveFinalizer m monitorFinalizer) monitorFinalizer))"
proof -
  let ?R = "MonitorReconciler_Reconcile env req w"
  let ?m' = "RemoveFinalizer m monitorFinalizer"
  let ?d = "ExtDelete (ExternalID (Status m))"
  have step: "?R = handleDeletion env m w"
    using stored deleting by (simp add: Reconcile_deleting Get_Monitor_stored)
  have k: "key_of ?m' = req" using stored by (simp add: key_of_RemoveFinalizer)
  have noop: "?R = (None, w)" if "\<not> ContainsFinalizer m monitorFinalizer"
    using that by (simp add: step handleDeletion_unmarked)
  have removed: "issued w (snd ?R)
              = (if ExternalID (Status m) = '''' then [] else [?d]) @ [StoreUpdate ?m']
            \<and> (Update_fault env = None \<longrightarrow>
                 fst ?R = None \<and> monitors (snd ?R) req = Some ?m'
                 \<and> \<not> ContainsFinalizer ?m' monitorFinalizer)"
    if h: "ContainsFinalizer m monitorFinalizer
            \<and> (ExternalID (Status m) = '''' \<or> snd (Delete_Execute env) = None
                \<or> (\<exists>resp e'. Delete_Execute env = (Some resp, Some e') \<and> StatusCode resp = 404))"
  proof (cases "ExternalID (Status m) = ''''")
    case True
    have s2: "?R = Update env ?m' w"
      using h True by (simp add: step handleDeletion_no_externalID)
    have "issued w (snd ?R) = [StoreUpdate ?m']" by (simp add: s2 issued_def Update_calls)
    moreover have "fst ?R = None \<and> monitors (snd ?R) req = Some ?m'"
      if "Update_fault env = None"
      using Update_ok_result [of env w ?m' m] that stored k by (simp add: s2)
    ultimately show ?thesis using True by (simp add: RemoveFinalizer_gone)
  next
    case False
    have s2: "?R = Update env ?m' (record_call ?d w)"
      using h False by (simp add: step handleDeletion_delete_ok)
    have "issued w (snd ?R) = [?d, StoreUpdate ?m']" by (simp add: s2 issued_def Update_calls)
    moreover have "fst ?R = None \<and> monitors (snd ?R) req = Some ?m'"
      if "Update_fault env = None"
      using Update_ok_result [of env "record_call ?d w" ?m' m] that stored k by (simp add: s2)
    ultimately show ?thesis using False by (simp add: RemoveFinalizer_gone)
  qed
  have failed: "?R = (Some e, record_call ?d w) \<and> monitors (snd ?R) req = Some m"
    if h: "ContainsFinalizer m monitorFinalizer \<and> ExternalID (Status m) \<noteq> ''''
            \<and> Delete_Execute env = (hr, Some e)
            \<and> \<not> (\<exists>resp. hr = Some resp \<and> StatusCode resp = 404)"
    using h stored handleDeletion_delete_failed [of m env hr e w] by (simp add: step)
  have called: "\<exists>rest. issued w (snd ?R) = ?d # rest"
    if h: "ContainsFinalizer m monitorFinalizer \<and> ExternalID (Status m) \<noteq> ''''"
  proof (cases "Delete_Execute env")
    case (Pair hr err)
    show ?thesis
    proof (cases "snd (Delete_Execute env) = None
                \<or> (\<exists>resp e'. Delete_Execute env = (Some resp, Some e') \<and> StatusCode resp = 404)")
      case True
      with h removed show ?thesis by simp
    next
      case False
      with Pair obtain e' where e': "err = Some e'" by (cases err) auto
      have "\<not> (\<exists>resp. hr = Some resp \<and> StatusCode resp = 404)"
        using False Pair e' by auto
      then have "handleDeletion env m w = (Some e', record_call ?d w)"
        using h Pair e' handleDeletion_delete_failed [of m env hr e' w] by simp
      then show ?thesis by (simp add: step)
    qed
  qed
  from noop removed failed called show ?thesis by blast
qed

theorem deletion_handling_witness:
  "monitors (world_with deleting_monitor) example_key = Some deleting_monitor
   \<and> key_of deleting_monitor = example_key
   \<and> \<not> IsZero (DeletionTimestamp deleting_monitor)
   \<and> ContainsFinalizer deleting_monitor monitorFinalizer
   \<and> ExternalID (Status deleting_monitor) = ''42''
   \<and> Delete_Execute env_delete_404
        = (Some \<lparr>StatusCode = 404\<rparr>, Some (GenericOpenAPIError ''404 Not Found''))
   \<and> Update_fault env_delete_404 = None
   \<and> MonitorReconciler_Reconcile env_delete_404 example_key (world_with deleting_monitor)
        = (None, \<lparr>ingresses = Map.empty,
                  monitors = Map.empty(example_key \<mapsto> unmarked_deleting_monitor),
                  calls = [ExtDelete ''42'', StoreUpdate unmarked_deleting_monitor]\<rparr>)
   \<and> MonitorReconciler_Reconcile env_delete_500 example_key (world_with deleting_monitor)
        = (Some (GenericOpenAPIError ''500 Internal Server Error''),
           record_call (ExtDelete ''42'') (world_with deleting_monitor))
   \<and> monitors (snd (MonitorReconciler_Reconcile env_delete_500 example_key
                       (world_with deleting_monitor))) example_key = Some deleting_monitor
   \<and> \<not> ContainsFinalizer unmarked_deleting_monitor monitorFinalizer
   \<and> MonitorReconciler_Reconcile env_ok example_key (world_with unmarked_deleting_monitor)
        = (None, world_with unmarked_deleting_monitor)"
proof -
  let ?w = "world_with deleting_monitor"
  let ?u = "world_with unmarked_deleting_monitor"
  have stored: "monitors ?w example_key = Some deleting_monitor"
    and k: "key_of deleting_monitor = example_key"
    and g: "Get_Monitor_fault env_delete_404 = None" "Get_Monitor_fault env_delete_500 = None"
           "Get_Monitor_fault env_ok = None"
    and deleting: "\<not> IsZero (DeletionTimestamp deleting_monitor)"
    and marked: "ContainsFinalizer deleting_monitor monitorFinalizer"
    and ext: "ExternalID (Status deleting_monitor) = ''42''"
    and d404: "Delete_Execute env_delete_404
        = (Some \<lparr>StatusCode = 404\<rparr>, Some (GenericOpenAPIError ''404 Not Found''))"
    and d500: "Delete_Execute env_delete_500
        = (Some \<lparr>StatusCode = 500\<rparr>, Some (GenericOpenAPIError ''500 Internal Server Error''))"
    and u: "Update_fault env_delete_404 = None"
    and rm: "RemoveFinalizer deleting_monitor monitorFinalizer = unmarked_deleting_monitor"
    by (simp_all add: example_defs example_key_def key_of_def ContainsFinalizer_def
                      RemoveFinalizer_def)
  have ustored: "monitors ?u example_key = Some unmarked_deleting_monitor"
    and uk: "key_of unmarked_deleting_monitor = example_key"
    and udeleting: "\<not> IsZero (DeletionTimestamp unmarked_deleting_monitor)"
    and unmarked: "\<not> ContainsFinalizer unmarked_deleting_monitor monitorFinalizer"
    by (simp_all add: example_defs example_key_def key_of_def ContainsFinalizer_def)
  note a = deletion_handling [OF stored k g(1) deleting]
  note b = deletion_handling [OF stored k g(2) deleting,
             of "Some \<lparr>StatusCode = 500\<rparr>" "GenericOpenAPIError ''500 Internal Server Error''"]
  note c = deletion_handling [OF ustored uk g(3) udeleting]
  have eval: "MonitorReconciler_Reconcile env_delete_404 example_key ?w
        = (None, \<lparr>ingresses = Map.empty,
                  monitors = Map.empty(example_key \<mapsto> unmarked_deleting_monitor),
                  calls = [ExtDelete ''42'', StoreUpdate unmarked_deleting_monitor]\<rparr>)"
    by (simp add: model_defs example_defs example_key_def)
  from a marked ext d404 u
  have c1: "monitors (snd (MonitorReconciler_Reconcile env_delete_404 example_key ?w)) example_key
              = Some (RemoveFinalizer deleting_monitor monitorFinalizer)"
    by simp
  from b marked ext d500 stored
  have c2: "MonitorReconciler_Reconcile env_delete_500 example_key ?w
        = (Some (GenericOpenAPIError ''500 Internal Server Error''),
           record_call (ExtDelete ''42'') ?w)
       \<and> monitors (snd (MonitorReconciler_Reconcile env_delete_500 example_key ?w)) example_key
           = Some deleting_monitor"
    by simp
  from c unmarked
  have c3: "MonitorReconciler_Reconcile env_ok example_key ?u = (None, ?u)"
    by blast
  show ?thesis
    using stored k deleting marked ext d404 u eval c2 unmarked c3 by (intro conjI) simp_all
qed

section \<open>Ingress watcher: the derived target\<close>

text \<open>
  Claim C5, as the second text of the watcher has it. For a route with at least one rule and a non-empty first
  host, the target is \<open>scheme://host\<close> followed by the path, where the scheme is \<open>https\<close>
  if and only if the route has a TLS entry and \<open>http\<close> otherwise, the host is the first
  rule's host, and the path is the normalised \<open>upbot.app/path\<close> annotation, omitted when
  the annotation is absent or empty.
\<close>

theorem derived_target:
  assumes "Rules (Ingress_Spec ingress) = rule # rest" and "Host rule \<noteq> ''''"
  shows "copy2_getTargetFromIngress ingress =
           Inr ((if TLS (Ingress_Spec ingress) \<noteq> [] then ''https'' else ''http'') @ ''://''
                @ Host rule
                @ (case Annotations ingress ''upbot.app/path'' of
                     None \<Rightarrow> ''''
                   | Some d \<Rightarrow> if d = '''' then '''' else normalized_path d))"
proof (cases "Annotations ingress ''upbot.app/path''")
  case None
  with assms show ?thesis by (simp add: copy2_getTargetFromIngress_def)
next
  case (Some d)
  show ?thesis
  proof (cases d)
    case Nil
    with assms Some show ?thesis by (simp add: copy2_getTargetFromIngress_def)
  next
    case (Cons c cs)
    show ?thesis
    proof (cases "c = CHR ''/''")
      case True
      with assms Some Cons show ?thesis
        by (cases cs) (auto simp: copy2_getTargetFromIngress_def normalized_path_def Let_def)
    next
      case False
      with assms Some Cons show ?thesis
        by (auto simp: copy2_getTargetFromIngress_def normalized_path_def Let_def)
    qed
  qed
qed

theorem derived_target_witness:
  "Rules (Ingress_Spec (ingress_with (Map.empty(''upbot.app/path'' \<mapsto> ''health''))
                                     [\<lparr>Host = ''myapp.example.com''\<rparr>]))
     = [\<lparr>Host = ''myapp.example.com''\<rparr>]
   \<and> Host \<lparr>Host = ''myapp.example.com''\<rparr> \<noteq> ''''
   \<and> copy2_getTargetFromIngress (ingress_with (Map.empty(''upbot.app/path'' \<mapsto> ''health''))
                                              [\<lparr>Host = ''myapp.example.com''\<rparr>])
       = Inr ''http://myapp.example.com/health''
   \<and> copy2_getTargetFromIngress tls_ingress = Inr ''https://api.example.com/api/v1''
   \<and> copy2_getTargetFromIngress (ingress_with (Map.empty(''upbot.app/path'' \<mapsto> ''/''))
                                              [\<lparr>Host = ''myapp.example.com''\<rparr>])
       = Inr ''http://myapp.example.com/''
   \<and> copy2_getTargetFromIngress (ingress_with Map.empty [\<lparr>Host = ''myapp.example.com''\<rparr>])
       = Inr ''http://myapp.example.com''"
proof -
  let ?rule = "\<lparr>Host = ''myapp.example.com''\<rparr>"
  let ?arule = "\<lparr>Host = ''api.example.com''\<rparr>"
  have r1: "Rules (Ingress_Spec (ingress_with a [?rule])) = ?rule # []" for a
    by (simp add: ingress_with_def)
  have r2: "Rules (Ingress_Spec tls_ingress) = ?arule # []"
    by (simp add: tls_ingress_def)
  have h1: "Host ?rule \<noteq> ''''" and h2: "Host ?arule \<noteq> ''''" by simp_all
  note a = derived_target [OF r1 h1, of "Map.empty(''upbot.app/path'' \<mapsto> ''health'')"]
  note b = derived_target [OF r2 h2]
  note c = derived_target [OF r1 h1, of "Map.empty(''upbot.app/path'' \<mapsto> ''/'')"]
  note d = derived_target [OF r1 h1, of Map.empty]
  have n: "normalized_path ''health'' = ''/health''" "normalized_path ''/api/v1/'' = ''/api/v1''"
          "normalized_path ''/'' = ''/''"
    by (simp_all add: normalized_path_def)
  from a n have t1: "copy2_getTargetFromIngress (ingress_with (Map.empty(''upbot.app/path'' \<mapsto> ''health'')) [?rule])
       = Inr ''http://myapp.example.com/health''"
    by (simp add: ingress_with_def)
  from b n have t2: "copy2_getTargetFromIngress tls_ingress = Inr ''https://api.example.com/api/v1''"
    by (simp add: tls_ingress_def ingress_with_def)
  from c n have t3: "copy2_getTargetFromIngress (ingress_with (Map.empty(''upbot.app/path'' \<mapsto> ''/'')) [?rule])
       = Inr ''http://myapp.example.com/''"
    by (simp add: ingress_with_def)
  from d have t4: "copy2_getTargetFromIngress (ingress_with Map.empty [?rule])
       = Inr ''http://myapp.example.com''"
    by (simp add: ingress_with_def)
  from r1 [of "Map.empty(''upbot.app/path'' \<mapsto> ''health'')"] h1 t1 t2 t3 t4
  show ?thesis by simp
qed

text \<open>
  The wording of the specification omits the path only for an absent annotation. With the
  annotation present and empty, normalisation gives \<open>/\<close> and the claimed target is
  \<open>http://myapp.example.com/\<close>; the code returns \<open>http://myapp.example.com\<close>.
\<close>

theorem empty_path_directive_counterexample:
  "Annotations (ingress_with (Map.empty(''upbot.app/path'' \<mapsto> '''')) [\<lparr>Host = ''myapp.example.com''\<rparr>])
      ''upbot.app/path'' = Some ''''
   \<and> normalized_path '''' = ''/''
   \<and> copy2_getTargetFromIngress
        (ingress_with (Map.empty(''upbot.app/path'' \<mapsto> '''')) [\<lparr>Host = ''myapp.example.com''\<rparr>])
       = Inr ''http://myapp.example.com''
   \<and> copy2_getTargetFromIngress
        (ingress_with (Map.empty(''upbot.app/path'' \<mapsto> '''')) [\<lparr>Host = ''myapp.example.com''\<rparr>])
       \<noteq> Inr (''http'' @ ''://'' @ ''myapp.example.com'' @ normalized_path '''')"
  by (simp add: copy2_getTargetFromIngress_def ingress_with_def normalized_path_def)

section \<open>Ingress watcher: the interval\<close>

text \<open>
  Claim C6, on the second text of the watcher. Every Monitor that
  \<open>createMonitorFromIngress\<close> creates for a route, called
  directly or through the reconcile of that route, has as interval the route's
  \<open>upbot.app/interval\<close> annotation when it is non-empty, otherwise the reconciler's
  interval when that is non-empty, otherwise \<open>30\<close>. When the target derivation succeeds
  and the Ingress kind is registered, a Monitor is created.
\<close>

theorem created_monitor_interval:
  "((StoreCreate m \<in> set (issued w (snd (copy2_createMonitorFromIngress r env ingress w)))
     \<or> (Get_Ingress env req w = Inr ingress
         \<and> StoreCreate m \<in> set (issued w (snd (copy2_Reconcile r env req w))))) \<longrightarrow>
      (Annotations ingress ''upbot.app/interval'' = Some d \<and> d \<noteq> '''' \<longrightarrow>
         Interval (Spec m) = d)
      \<and> ((Annotations ingress ''upbot.app/interval'' = None
            \<or> Annotations ingress ''upbot.app/interval'' = Some '''')
           \<and> Reconciler_Interval r \<noteq> '''' \<longrightarrow>
            Interval (Spec m) = Reconciler_Interval r)
      \<and> ((Annotations ingress ''upbot.app/interval'' = None
            \<or> Annotations ingress ''upbot.app/interval'' = Some '''')
           \<and> Reconciler_Interval r = '''' \<longrightarrow>
            Interval (Spec m) = ''30''))
   \<and> (copy2_getTargetFromIngress ingress = Inr target
        \<and> ''Ingress'' \<in> set (kinds (Reconciler_Scheme r)) \<longrightarrow>
        (\<exists>m'. issued w (snd (copy2_createMonitorFromIngress r env ingress w)) = [StoreCreate m']))"
proof (intro conjI impI)
  assume "copy2_getTargetFromIngress ingress = Inr target
        \<and> ''Ingress'' \<in> set (kinds (Reconciler_Scheme r))"
  then show "\<exists>m'. issued w (snd (copy2_createMonitorFromIngress r env ingress w)) = [StoreCreate m']"
    by (simp add: copy2_createMonitorFromIngress_creates)
next
  assume "StoreCreate m \<in> set (issued w (snd (copy2_createMonitorFromIngress r env ingress w)))
     \<or> (Get_Ingress env req w = Inr ingress
         \<and> StoreCreate m \<in> set (issued w (snd (copy2_Reconcile r env req w))))"
  then have "StoreCreate m \<in> set (issued w (snd (copy2_createMonitorFromIngress r env ingress w)))"
    by (auto dest: copy2_Reconcile_create_from)
  then have iv: "Interval (Spec m) = copy2_interval r ingress"
    using copy2_createMonitorFromIngress_calls [of w r env ingress] by auto
  {
    assume "Annotations ingress ''upbot.app/interval'' = Some d \<and> d \<noteq> ''''"
    then show "Interval (Spec m) = d" by (simp add: iv copy2_interval_def)
  }
  {
    assume "(Annotations ingress ''upbot.app/interval'' = None
            \<or> Annotations ingress ''upbot.app/interval'' = Some '''')
           \<and> Reconciler_Interval r \<noteq> ''''"
    then show "Interval (Spec m) = Reconciler_Interval r"
      by (auto simp: iv copy2_interval_def Let_def)
  }
  {
    assume "(Annotations ingress ''upbot.app/interval'' = None
            \<or> Annotations ingress ''upbot.app/interval'' = Some '''')
           \<and> Reconciler_Interval r = ''''"
    then show "Interval (Spec m) = ''30''"
      by (auto simp: iv copy2_interval_def Let_def)
  }
qed

theorem created_monitor_interval_witness:
  "(\<exists>m. issued (route_world (Some interval_ingress) None)
           (snd (copy2_Reconcile example_reconciler env_ok example_key
                   (route_world (Some interval_ingress) None))) = [StoreCreate m]
        \<and> Annotations interval_ingress ''upbot.app/interval'' = Some ''10''
        \<and> Interval (Spec m) = ''10'')
   \<and> (\<exists>m. issued (route_world (Some plain_ingress) None)
           (snd (copy2_Reconcile example_reconciler env_ok example_key
                   (route_world (Some plain_ingress) None))) = [StoreCreate m]
        \<and> Annotations plain_ingress ''upbot.app/interval'' = None
        \<and> Reconciler_Interval example_reconciler = ''30''
        \<and> Interval (Spec m) = ''30'')
   \<and> (\<exists>m. issued (route_world (Some plain_ingress) None)
           (snd (copy2_createMonitorFromIngress reconciler_without_default env_ok plain_ingress
                   (route_world (Some plain_ingress) None))) = [StoreCreate m]
        \<and> Reconciler_Interval reconciler_without_default = ''''
        \<and> Interval (Spec m) = ''30'')"
proof -
  let ?wi = "route_world (Some interval_ingress) None"
  let ?wp = "route_world (Some plain_ingress) None"
  have gi: "Get_Ingress env_ok example_key ?wi = Inr interval_ingress"
    and gp: "Get_Ingress env_ok example_key ?wp = Inr plain_ingress"
    by (simp_all add: Get_Ingress_def route_world_def env_ok_def)
  have ai: "Annotations interval_ingress ''upbot.app/interval'' = Some ''10''"
    and ap: "Annotations plain_ingress ''upbot.app/interval'' = None"
    and ri: "Reconciler_Interval example_reconciler = ''30''"
    and rn: "Reconciler_Interval reconciler_without_default = ''''"
    by (simp_all add: interval_ingress_def plain_ingress_def ingress_with_def
                      example_reconciler_def reconciler_without_default_def)
  have ti: "copy2_getTargetFromIngress interval_ingress = Inr ''http://myapp.example.com''"
    and tp: "copy2_getTargetFromIngress plain_ingress = Inr ''http://myapp.example.com''"
    by (simp_all add: copy2_getTargetFromIngress_def interval_ingress_def plain_ingress_def
                      ingress_with_def)
  have k: "''Ingress'' \<in> set (kinds (Reconciler_Scheme example_reconciler))"
          "''Ingress'' \<in> set (kinds (Reconciler_Scheme reconciler_without_default))"
    by (simp_all add: example_reconciler_def reconciler_without_default_def)
  have ri': "copy2_Reconcile example_reconciler env_ok example_key ?wi
               = copy2_createMonitorFromIngress example_reconciler env_ok interval_ingress ?wi"
    and rp': "copy2_Reconcile example_reconciler env_ok example_key ?wp
               = copy2_createMonitorFromIngress example_reconciler env_ok plain_ingress ?wp"
  proof -
    have gm: "Get_Monitor env_ok example_key (route_world i None) = Inl NotFound" for i
      by (simp add: Get_Monitor_def route_world_def env_ok_def)
    have en: "Annotations interval_ingress ''upbot.app/monitor'' = None"
             "Annotations plain_ingress ''upbot.app/monitor'' = None"
      by (simp_all add: interval_ingress_def plain_ingress_def ingress_with_def)
    show "copy2_Reconcile example_reconciler env_ok example_key ?wi
               = copy2_createMonitorFromIngress example_reconciler env_ok interval_ingress ?wi"
      by (simp add: copy2_Reconcile_def gi gm en IsNotFound_def)
    show "copy2_Reconcile example_reconciler env_ok example_key ?wp
               = copy2_createMonitorFromIngress example_reconciler env_ok plain_ingress ?wp"
      by (simp add: copy2_Reconcile_def gp gm en IsNotFound_def)
  qed
  from created_monitor_interval
         [where w = ?wi and r = example_reconciler and env = env_ok and ingress = interval_ingress
            and target = "''http://myapp.example.com''"]
       ti k
  obtain m1 where m1: "issued ?wi (snd (copy2_createMonitorFromIngress example_reconciler env_ok
                                          interval_ingress ?wi)) = [StoreCreate m1]"
    by blast
  from created_monitor_interval
         [where m = m1 and w = ?wi and r = example_reconciler and env = env_ok
            and ingress = interval_ingress and d = "''10''"] m1 ai
  have i1: "Interval (Spec m1) = ''10''" by simp
  from created_monitor_interval
         [where w = ?wp and r = example_reconciler and env = env_ok and ingress = plain_ingress
            and target = "''http://myapp.example.com''"]
       tp k
  obtain m2 where m2: "issued ?wp (snd (copy2_createMonitorFromIngress example_reconciler env_ok
                                          plain_ingress ?wp)) = [StoreCreate m2]"
    by blast
  from created_monitor_interval
         [where m = m2 and w = ?wp and r = example_reconciler and env = env_ok
            and ingress = plain_ingress] m2 ap ri
  have i2: "Interval (Spec m2) = ''30''" by simp
  from created_monitor_interval
         [where w = ?wp and r = reconciler_without_default and env = env_ok
            and ingress = plain_ingress and target = "''http://myapp.example.com''"]
       tp k
  obtain m3 where m3: "issued ?wp (snd (copy2_createMonitorFromIngress reconciler_without_default env_ok
                                          plain_ingress ?wp)) = [StoreCreate m3]"
    by blast
  from created_monitor_interval
         [where m = m3 and w = ?wp and r = reconciler_without_default and env = env_ok
            and ingress = plain_ingress] m3 ap rn
  have i3: "Interval (Spec m3) = ''30''" by simp
  from m1 i1 ai have "\<exists>m. issued ?wi (snd (copy2_Reconcile example_reconciler env_ok example_key ?wi))
                        = [StoreCreate m]
        \<and> Annotations interval_ingress ''upbot.app/interval'' = Some ''10''
        \<and> Interval (Spec m) = ''10''"
    by (simp add: ri')
  moreover from m2 i2 ap ri
  have "\<exists>m. issued ?wp (snd (copy2_Reconcile example_reconciler env_ok example_key ?wp))
                        = [StoreCreate m]
        \<and> Annotations plain_ingress ''upbot.app/interval'' = None
        \<and> Reconciler_Interval example_reconciler = ''30''
        \<and> Interval (Spec m) = ''30''"
    by (simp add: rp')
  moreover from m3 i3 rn
  have "\<exists>m. issued ?wp (snd (copy2_createMonitorFromIngress reconciler_without_default env_ok
                                 plain_ingress ?wp)) = [StoreCreate m]
        \<and> Reconciler_Interval reconciler_without_default = ''''
        \<and> Interval (Spec m) = ''30''"
    by simp
  ultimately show ?thesis by blast
qed

section \<open>Ingress watcher: validation failures\<close>

text \<open>
  Claim C7. \<open>getTargetFromIngress\<close> fails if and only if the route has no rule or its
  first rule has an empty host. When it fails with \<open>e\<close>, \<open>e\<close> is a \<open>fmt.Errorf\<close> error,
  \<open>createMonitorFromIngress\<close> returns \<open>e\<close> and leaves the world as it was (no call, no
  Monitor), and so does the reconcile that reaches the derivation (route found, no Monitor
  at the key).
\<close>

theorem validation_failure_surfaced:
  "((\<exists>e. getTargetFromIngress ingress = Inl e) \<longleftrightarrow>
      (Rules (Ingress_Spec ingress) = []
       \<or> (\<exists>rule rest. Rules (Ingress_Spec ingress) = rule # rest \<and> Host rule = '''')))
   \<and> (getTargetFromIngress ingress = Inl e \<longrightarrow>
         (\<exists>msg. e = Errorf msg)
         \<and> createMonitorFromIngress r env ingress w = (Some e, w)
         \<and> (Get_Ingress env req w = Inr ingress \<and> Get_Monitor env req w = Inl NotFound \<longrightarrow>
              IngressWatcherReconciler_Reconcile r env req w = (Some e, w)))"
  by (auto simp: getTargetFromIngress_def createMonitorFromIngress_def
                 IngressWatcherReconciler_Reconcile_def IsNotFound_def Let_def
           split: list.splits if_splits)

theorem validation_failure_surfaced_witness:
  "Rules (Ingress_Spec (ingress_with Map.empty [])) = []
   \<and> getTargetFromIngress (ingress_with Map.empty []) = Inl (Errorf ''no rules found in Ingress'')
   \<and> Get_Ingress env_ok example_key (route_world (Some (ingress_with Map.empty [])) None)
        = Inr (ingress_with Map.empty [])
   \<and> Get_Monitor env_ok example_key (route_world (Some (ingress_with Map.empty [])) None)
        = Inl NotFound
   \<and> createMonitorFromIngress example_reconciler env_ok (ingress_with Map.empty [])
        (route_world (Some (ingress_with Map.empty [])) None)
        = (Some (Errorf ''no rules found in Ingress''),
           route_world (Some (ingress_with Map.empty [])) None)
   \<and> IngressWatcherReconciler_Reconcile example_reconciler env_ok example_key
        (route_world (Some (ingress_with Map.empty [])) None)
        = (Some (Errorf ''no rules found in Ingress''),
           route_world (Some (ingress_with Map.empty [])) None)
   \<and> getTargetFromIngress (ingress_with Map.empty [\<lparr>Host = ''''\<rparr>])
        = Inl (Errorf ''no host found in Ingress rule'')"
proof -
  let ?i = "ingress_with Map.empty []"
  let ?w = "route_world (Some ?i) None"
  have rules: "Rules (Ingress_Spec ?i) = []" by (simp add: ingress_with_def)
  have gi: "Get_Ingress env_ok example_key ?w = Inr ?i"
    and gm: "Get_Monitor env_ok example_key ?w = Inl NotFound"
    by (simp_all add: Get_Ingress_def Get_Monitor_def route_world_def env_ok_def)
  note a = validation_failure_surfaced
             [of ?i "Errorf ''no rules found in Ingress''" example_reconciler env_ok ?w example_key]
  from a rules have "\<exists>e. getTargetFromIngress ?i = Inl e" by blast
  then have failed: "getTargetFromIngress ?i = Inl (Errorf ''no rules found in Ingress'')"
    by (simp add: getTargetFromIngress_def rules)
  note b = validation_failure_surfaced [of "ingress_with Map.empty [\<lparr>Host = ''''\<rparr>]"]
  have "Rules (Ingress_Spec (ingress_with Map.empty [\<lparr>Host = ''''\<rparr>])) = [\<lparr>Host = ''''\<rparr>]"
    by (simp add: ingress_with_def)
  with b have "\<exists>e. getTargetFromIngress (ingress_with Map.empty [\<lparr>Host = ''''\<rparr>]) = Inl e"
    by simp
  then have host: "getTargetFromIngress (ingress_with Map.empty [\<lparr>Host = ''''\<rparr>])
        = Inl (Errorf ''no host found in Ingress rule'')"
    by (simp add: getTargetFromIngress_def ingress_with_def)
  from a failed gi gm rules host show ?thesis by simp
qed

section \<open>Ingress watcher: metadata of the created Monitor\<close>

text \<open>
  Claim C8, on the second text of the watcher. Every Monitor that it creates for a route, through
  \<open>createMonitorFromIngress\<close> called directly or through the reconcile of that route,
  carries the label \<open>upbot.app/source = ingress-watcher\<close>, the label
  \<open>upbot.app/target-type = http\<close>, the annotation \<open>upbot.app/auto-generated = true\<close>, the
  annotation \<open>upbot.app/source-ingress\<close> equal to \<open>namespace/name\<close> of the route, and a
  controller owner reference to the route. When the target derivation succeeds and the
  Ingress kind is registered, a Monitor is created.
\<close>

theorem created_monitor_metadata:
  "((StoreCreate m \<in> set (issued w (snd (copy2_createMonitorFromIngress r env ingress w)))
     \<or> (Get_Ingress env req w = Inr ingress
         \<and> StoreCreate m \<in> set (issued w (snd (copy2_Reconcile r env req w))))) \<longrightarrow>
      Labels m ''upbot.app/source'' = Some ''ingress-watcher''
      \<and> Labels m ''upbot.app/target-type'' = Some ''http''
      \<and> Annotations m ''upbot.app/auto-generated'' = Some ''true''
      \<and> Annotations m ''upbot.app/source-ingress'' = Some (Namespace ingress @ ''/'' @ Name ingress)
      \<and> OwnerReferences m = [\<lparr>ref_Kind = ''Ingress'', ref_Name = Name ingress,
                                ref_UID = UID ingress, ref_Controller = True,
                                ref_BlockOwnerDeletion = True\<rparr>])
   \<and> (copy2_getTargetFromIngress ingress = Inr target
        \<and> ''Ingress'' \<in> set (kinds (Reconciler_Scheme r)) \<longrightarrow>
        (\<exists>m'. issued w (snd (copy2_createMonitorFromIngress r env ingress w)) = [StoreCreate m']))"
proof (intro conjI impI)
  assume "copy2_getTargetFromIngress ingress = Inr target
        \<and> ''Ingress'' \<in> set (kinds (Reconciler_Scheme r))"
  then show "\<exists>m'. issued w (snd (copy2_createMonitorFromIngress r env ingress w)) = [StoreCreate m']"
    by (simp add: copy2_createMonitorFromIngress_creates)
next
  assume "StoreCreate m \<in> set (issued w (snd (copy2_createMonitorFromIngress r env ingress w)))
     \<or> (Get_Ingress env req w = Inr ingress
         \<and> StoreCreate m \<in> set (issued w (snd (copy2_Reconcile r env req w))))"
  then have "StoreCreate m \<in> set (issued w (snd (copy2_createMonitorFromIngress r env ingress w)))"
    by (auto dest: copy2_Reconcile_create_from)
  then have m: "Labels m ''upbot.app/source'' = Some ''ingress-watcher''
      \<and> Labels m ''upbot.app/target-type'' = Some ''http''
      \<and> Annotations m ''upbot.app/auto-generated'' = Some ''true''
      \<and> Annotations m ''upbot.app/source-ingress'' = Some (Namespace ingress @ ''/'' @ Name ingress)
      \<and> OwnerReferences m = [\<lparr>ref_Kind = ''Ingress'', ref_Name = Name ingress,
                                ref_UID = UID ingress, ref_Controller = True,
                                ref_BlockOwnerDeletion = True\<rparr>]"
    using copy2_createMonitorFromIngress_calls [of w r env ingress] by auto
  from m show "Labels m ''upbot.app/source'' = Some ''ingress-watcher''" by simp
  from m show "Labels m ''upbot.app/target-type'' = Some ''http''" by simp
  from m show "Annotations m ''upbot.app/auto-generated'' = Some ''true''" by simp
  from m show "Annotations m ''upbot.app/source-ingress'' = Some (Namespace ingress @ ''/'' @ Name ingress)"
    by simp
  from m show "OwnerReferences m = [\<lparr>ref_Kind = ''Ingress'', ref_Name = Name ingress,
                                ref_UID = UID ingress, ref_Controller = True,
                                ref_BlockOwnerDeletion = True\<rparr>]" by simp
qed

theorem created_monitor_metadata_witness:
  "\<exists>m. issued (route_world (Some plain_ingress) None)
           (snd (copy2_Reconcile example_reconciler env_ok example_key
                   (route_world (Some plain_ingress) None))) = [StoreCreate m]
      \<and> Labels m ''upbot.app/source'' = Some ''ingress-watcher''
      \<and> Labels m ''upbot.app/target-type'' = Some ''http''
      \<and> Annotations m ''upbot.app/auto-generated'' = Some ''true''
      \<and> Annotations m ''upbot.app/source-ingress'' = Some ''default/my-app''
      \<and> OwnerReferences m = [\<lparr>ref_Kind = ''Ingress'', ref_Name = ''my-app'', ref_UID = ''uid-0'',
                                ref_Controller = True, ref_BlockOwnerDeletion = True\<rparr>]"
proof -
  let ?wp = "route_world (Some plain_ingress) None"
  have gp: "Get_Ingress env_ok example_key ?wp = Inr plain_ingress"
    by (simp add: Get_Ingress_def route_world_def env_ok_def)
  have tp: "copy2_getTargetFromIngress plain_ingress = Inr ''http://myapp.example.com''"
    by (simp add: copy2_getTargetFromIngress_def plain_ingress_def ingress_with_def)
  have k: "''Ingress'' \<in> set (kinds (Reconciler_Scheme example_reconciler))"
    by (simp add: example_reconciler_def)
  have rp': "copy2_Reconcile example_reconciler env_ok example_key ?wp
               = copy2_createMonitorFromIngress example_reconciler env_ok plain_ingress ?wp"
  proof -
    have gm: "Get_Monitor env_ok example_key ?wp = Inl NotFound"
      by (simp add: Get_Monitor_def route_world_def env_ok_def)
    have en: "Annotations plain_ingress ''upbot.app/monitor'' = None"
      by (simp add: plain_ingress_def ingress_with_def)
    show ?thesis by (simp add: copy2_Reconcile_def gp gm en IsNotFound_def)
  qed
  have names: "Namespace plain_ingress @ ''/'' @ Name plain_ingress = ''default/my-app''"
              "Name plain_ingress = ''my-app''" "UID plain_ingress = ''uid-0''"
              "Namespace plain_ingress = ''default''"
    by (simp_all add: plain_ingress_def ingress_with_def)
  from created_monitor_metadata
         [where w = ?wp and r = example_reconciler and env = env_ok and ingress = plain_ingress
            and target = "''http://myapp.example.com''"] tp k
  obtain m where m: "issued ?wp (snd (copy2_createMonitorFromIngress example_reconciler env_ok
                                        plain_ingress ?wp)) = [StoreCreate m]"
    by blast
  from created_monitor_metadata
         [where m = m and w = ?wp and r = example_reconciler and env = env_ok
            and ingress = plain_ingress] m
  have "Labels m ''upbot.app/source'' = Some ''ingress-watcher''
      \<and> Labels m ''upbot.app/target-type'' = Some ''http''
      \<and> Annotations m ''upbot.app/auto-generated'' = Some ''true''
      \<and> Annotations m ''upbot.app/source-ingress'' = Some ''default/my-app''
      \<and> OwnerReferences m = [\<lparr>ref_Kind = ''Ingress'', ref_Name = ''my-app'', ref_UID = ''uid-0'',
                                ref_Controller = True, ref_BlockOwnerDeletion = True\<rparr>]"
    by (simp add: names)
  with m show ?thesis by (auto simp: rp')
qed

section \<open>Monitor lifecycle: a failed external update\<close>

text \<open>
  Claim C9. For a Monitor with a non-empty \<open>status.externalID\<close> (not being deleted,
  finalizer attached), a failure \<open>e\<close> of the external update is returned, the only call
  issued is that update, the store is left as it was, so \<open>externalID\<close> keeps its non-empty
  value, and whatever the collaborators answer next, the following reconcile of the key
  issues no external create.
\<close>

theorem update_failure_keeps_externalID:
  assumes stored: "monitors w req = Some m" "Get_Monitor_fault env = None"
      and live: "IsZero (DeletionTimestamp m)" "ContainsFinalizer m monitorFinalizer"
      and synced: "ExternalID (Status m) \<noteq> ''''"
      and failed: "Update_Execute env = Some e"
  shows "MonitorReconciler_Reconcile env req w
           = (Some e, record_call (ExtUpdate (ExternalID (Status m)) (updateRequestOf m)) w)
      \<and> monitors (snd (MonitorReconciler_Reconcile env req w)) = monitors w
      \<and> (\<exists>m'. monitors (snd (MonitorReconciler_Reconcile env req w)) req = Some m'
               \<and> ExternalID (Status m') = ExternalID (Status m) \<and> ExternalID (Status m') \<noteq> '''')
      \<and> \<not> (\<exists>c \<in> set (issued (snd (MonitorReconciler_Reconcile env req w))
                        (snd (MonitorReconciler_Reconcile env2 req
                               (snd (MonitorReconciler_Reconcile env req w))))). is_ExtCreate c)"
proof -
  let ?w1 = "record_call (ExtUpdate (ExternalID (Status m)) (updateRequestOf m)) w"
  have step: "MonitorReconciler_Reconcile env req w = (Some e, ?w1)"
    using stored live synced failed
    by (simp add: Reconcile_armed Get_Monitor_stored handleCreateOrUpdate_synced)
  have next_step: "\<not> (\<exists>c \<in> set (issued ?w1 (snd (MonitorReconciler_Reconcile env2 req ?w1))). is_ExtCreate c)"
  proof (cases "Get_Monitor env2 req ?w1")
    case (Inl e')
    then show ?thesis by (simp add: Reconcile_get_failed)
  next
    case (Inr m')
    then have "m' = m" using stored by (auto dest: Get_Monitor_InrD)
    with Inr live synced show ?thesis
      by (simp add: Reconcile_armed handleCreateOrUpdate_synced)
  qed
  from next_step stored synced show ?thesis by (simp add: step)
qed

theorem update_failure_keeps_externalID_witness:
  "monitors (world_with synced_monitor) example_key = Some synced_monitor
   \<and> Get_Monitor_fault env_update_fails = None
   \<and> IsZero (DeletionTimestamp synced_monitor) \<and> ContainsFinalizer synced_monitor monitorFinalizer
   \<and> ExternalID (Status synced_monitor) = ''42''
   \<and> Update_Execute env_update_fails = Some (GenericOpenAPIError ''404 Not Found'')
   \<and> MonitorReconciler_Reconcile env_update_fails example_key (world_with synced_monitor)
        = (Some (GenericOpenAPIError ''404 Not Found''),
           record_call (ExtUpdate ''42'' (updateRequestOf synced_monitor)) (world_with synced_monitor))
   \<and> monitors (snd (MonitorReconciler_Reconcile env_update_fails example_key
                       (world_with synced_monitor))) example_key = Some synced_monitor
   \<and> \<not> (\<exists>c \<in> set (issued
            (snd (MonitorReconciler_Reconcile env_update_fails example_key (world_with synced_monitor)))
            (snd (MonitorReconciler_Reconcile env_ok example_key
               (snd (MonitorReconciler_Reconcile env_update_fails example_key
                      (world_with synced_monitor)))))). is_ExtCreate c)"
proof -
  let ?w = "world_with synced_monitor"
  have stored: "monitors ?w example_key = Some synced_monitor"
    and g: "Get_Monitor_fault env_update_fails = None"
    and live: "IsZero (DeletionTimestamp synced_monitor)"
              "ContainsFinalizer synced_monitor monitorFinalizer"
    and ext: "ExternalID (Status synced_monitor) = ''42''"
    and synced: "ExternalID (Status synced_monitor) \<noteq> ''''"
    and failed: "Update_Execute env_update_fails = Some (GenericOpenAPIError ''404 Not Found'')"
    by (simp_all add: example_defs example_key_def key_of_def ContainsFinalizer_def)
  note a = update_failure_keeps_externalID [OF stored g live synced failed, of env_ok]
  from a stored have "monitors (snd (MonitorReconciler_Reconcile env_update_fails example_key ?w))
                        example_key = Some synced_monitor"
    by simp
  with a stored g live ext failed show ?thesis by simp
qed

section \<open>Monitor lifecycle: a create that returns no identifier\<close>

text \<open>
  Claim C10. When the external create succeeds but the response is nil or carries a nil
  id, the reconcile returns success having issued the create call only: no status write,
  and the stored Monitor keeps its empty \<open>externalID\<close>. The next reconcile of the same
  Monitor therefore starts with the same create request again, so two creates for one
  Monitor have reached the external service.
\<close>

theorem create_without_id_repeats:
  assumes stored: "monitors w req = Some m" "Get_Monitor_fault env = None"
      and live: "IsZero (DeletionTimestamp m)" "ContainsFinalizer m monitorFinalizer"
      and armed: "ExternalID (Status m) = ''''"
      and no_id: "Create_Execute env = (None, None)
                  \<or> (\<exists>resp. Create_Execute env = (Some resp, None) \<and> Id resp = None)"
      and again: "Get_Monitor_fault env2 = None"
  shows "MonitorReconciler_Reconcile env req w
           = (None, record_call (ExtCreate (createRequestOf m)) w)
      \<and> monitors (snd (MonitorReconciler_Reconcile env req w)) req = Some m
      \<and> (\<exists>rest. issued w (snd (MonitorReconciler_Reconcile env2 req
                               (snd (MonitorReconciler_Reconcile env req w))))
                 = ExtCreate (createRequestOf m) # ExtCreate (createRequestOf m) # rest)"
proof -
  let ?w1 = "record_call (ExtCreate (createRequestOf m)) w"
  have step: "MonitorReconciler_Reconcile env req w = (None, ?w1)"
    using stored live armed no_id
    by (simp add: Reconcile_armed Get_Monitor_stored handleCreateOrUpdate_create_no_id)
  have "MonitorReconciler_Reconcile env2 req ?w1 = handleCreateOrUpdate env2 m ?w1"
    using stored live again by (simp add: Reconcile_armed Get_Monitor_stored)
  then have "\<exists>rest. calls (snd (MonitorReconciler_Reconcile env2 req ?w1))
                  = calls ?w1 @ ExtCreate (createRequestOf m) # rest"
    using armed handleCreateOrUpdate_creates [of m env2 ?w1] by simp
  then have "\<exists>rest. issued w (snd (MonitorReconciler_Reconcile env2 req ?w1))
                  = ExtCreate (createRequestOf m) # ExtCreate (createRequestOf m) # rest"
    by (auto simp: issued_def)
  with stored show ?thesis by (simp add: step)
qed

theorem create_without_id_repeats_witness:
  "monitors (world_with armed_monitor) example_key = Some armed_monitor
   \<and> Get_Monitor_fault env_create_no_id = None
   \<and> IsZero (DeletionTimestamp armed_monitor) \<and> ContainsFinalizer armed_monitor monitorFinalizer
   \<and> ExternalID (Status armed_monitor) = ''''
   \<and> Create_Execute env_create_no_id = (Some \<lparr>Id = None\<rparr>, None)
   \<and> MonitorReconciler_Reconcile env_create_no_id example_key (world_with armed_monitor)
        = (None, record_call (ExtCreate (createRequestOf armed_monitor)) (world_with armed_monitor))
   \<and> monitors (snd (MonitorReconciler_Reconcile env_create_no_id example_key
                       (world_with armed_monitor))) example_key = Some armed_monitor
   \<and> (\<exists>rest. issued (world_with armed_monitor)
          (snd (MonitorReconciler_Reconcile env_create_no_id example_key
             (snd (MonitorReconciler_Reconcile env_create_no_id example_key
                    (world_with armed_monitor)))))
        = ExtCreate (createRequestOf armed_monitor) # ExtCreate (createRequestOf armed_monitor) # rest)"
proof -
  let ?w = "world_with armed_monitor"
  have stored: "monitors ?w example_key = Some armed_monitor"
    and g: "Get_Monitor_fault env_create_no_id = None"
    and live: "IsZero (DeletionTimestamp armed_monitor)"
              "ContainsFinalizer armed_monitor monitorFinalizer"
    and armed: "ExternalID (Status armed_monitor) = ''''"
    and out: "Create_Execute env_create_no_id = (Some \<lparr>Id = None\<rparr>, None)"
    by (simp_all add: example_defs example_key_def key_of_def ContainsFinalizer_def)
  have no_id: "Create_Execute env_create_no_id = (None, None)
               \<or> (\<exists>resp. Create_Execute env_create_no_id = (Some resp, None) \<and> Id resp = None)"
    using out by simp
  note a = create_without_id_repeats [OF stored g live armed no_id g]
  with stored g live armed out show ?thesis by blast
qed

end
